theory Spec2Isabelle
  imports Main "HOL-Library.AList"
begin

section \<open>Python values\<close>

text \<open>
  The engine works on decoded JSON: \<open>None\<close>, booleans, integers, strings, lists
  and dictionaries with string keys.  A dictionary is an association list in insertion
  order; the operations below keep the keys distinct when they start distinct.
  Numbers are restricted to integers (no claim depends on a float).
\<close>

datatype json =
    JNull
  | JBool bool
  | JNum int
  | JStr string
  | JList "json list"
  | JObj "(string \<times> json) list"

type_synonym dict = "(string \<times> json) list"

text \<open>Truth value of a Python object, as used by \<open>if x\<close>, \<open>not x\<close>, \<open>x and y\<close>.\<close>

fun truthy :: "json \<Rightarrow> bool" where
  "truthy JNull = False"
| "truthy (JBool b) = b"
| "truthy (JNum n) = (n \<noteq> 0)"
| "truthy (JStr s) = (s \<noteq> [])"
| "truthy (JList xs) = (xs \<noteq> [])"
| "truthy (JObj d) = (d \<noteq> [])"

text \<open>
  Python's \<open>==\<close> on these values: \<open>True == 1\<close> and \<open>False == 0\<close>, lists compare
  element by element, dictionaries compare as mappings (order does not matter).
\<close>

fun py_eq :: "json \<Rightarrow> json \<Rightarrow> bool"
  and py_eq_list :: "json list \<Rightarrow> json list \<Rightarrow> bool"
  and py_eq_items :: "dict \<Rightarrow> dict \<Rightarrow> bool"
  and py_eq_lookup :: "string \<Rightarrow> json \<Rightarrow> dict \<Rightarrow> bool"
where
  "py_eq JNull y = (y = JNull)"
| "py_eq (JBool a) y =
     (case y of JBool b \<Rightarrow> a = b | JNum n \<Rightarrow> n = (if a then 1 else 0) | _ \<Rightarrow> False)"
| "py_eq (JNum m) y =
     (case y of JNum n \<Rightarrow> m = n | JBool b \<Rightarrow> m = (if b then 1 else 0) | _ \<Rightarrow> False)"
| "py_eq (JStr s) y = (y = JStr s)"
| "py_eq (JList xs) y = (case y of JList ys \<Rightarrow> py_eq_list xs ys | _ \<Rightarrow> False)"
| "py_eq (JObj d) y =
     (case y of JObj e \<Rightarrow> length d = length e \<and> py_eq_items d e | _ \<Rightarrow> False)"
| "py_eq_list [] ys = (ys = [])"
| "py_eq_list (x # xs) ys =
     (case ys of [] \<Rightarrow> False | y # ys' \<Rightarrow> py_eq x y \<and> py_eq_list xs ys')"
| "py_eq_items [] e = True"
| "py_eq_items (kv # d) e = (py_eq_lookup (fst kv) (snd kv) e \<and> py_eq_items d e)"
| "py_eq_lookup k v [] = False"
| "py_eq_lookup k v (kv # e) = (if fst kv = k then py_eq v (snd kv) else py_eq_lookup k v e)"

text \<open>\<open>x in xs\<close> for a list \<open>xs\<close>: some element is \<open>==\<close> to \<open>x\<close>.\<close>

definition py_in :: "json \<Rightarrow> json list \<Rightarrow> bool" where
  "py_in x xs = list_ex (\<lambda>y. py_eq x y) xs"

subsection \<open>Dictionaries\<close>

definition dget :: "dict \<Rightarrow> string \<Rightarrow> json option" where
  "dget d k = map_of d k"

text \<open>\<open>d.get(k)\<close>: the value, or \<open>None\<close> when the key is absent.\<close>

definition dget_default :: "dict \<Rightarrow> string \<Rightarrow> json" where
  "dget_default d k = (case map_of d k of None \<Rightarrow> JNull | Some v \<Rightarrow> v)"

definition has_key :: "dict \<Rightarrow> string \<Rightarrow> bool" where
  "has_key d k = (map_of d k \<noteq> None)"

text \<open>\<open>d[k] = v\<close>: an existing key keeps its position, a new key goes last.\<close>

definition dset :: "dict \<Rightarrow> string \<Rightarrow> json \<Rightarrow> dict" where
  "dset d k v = AList.update k v d"

definition ddel :: "dict \<Rightarrow> string \<Rightarrow> dict" where
  "ddel d k = AList.delete k d"

text \<open>\<open>d.update(e)\<close>.\<close>

fun dupdate :: "dict \<Rightarrow> dict \<Rightarrow> dict" where
  "dupdate d [] = d"
| "dupdate d (kv # e) = dupdate (dset d (fst kv) (snd kv)) e"


section \<open>Activity types and the class table\<close>

datatype ActivityType =
    ANNOUNCE | BLOCK | LIKE | CREATE | UPDATE | PERSON | ORDERED_COLLECTION
  | ORDERED_COLLECTION_PAGE | COLLECTION_PAGE | COLLECTION | NOTE | ACCEPT | REJECT
  | FOLLOW | DELETE | UNDO | IMAGE | TOMBSTONE

text \<open>The member's \<open>.value\<close>.\<close>

fun type_value :: "ActivityType \<Rightarrow> string" where
  "type_value ANNOUNCE = ''Announce''"
| "type_value BLOCK = ''Block''"
| "type_value LIKE = ''Like''"
| "type_value CREATE = ''Create''"
| "type_value UPDATE = ''Update''"
| "type_value PERSON = ''Person''"
| "type_value ORDERED_COLLECTION = ''OrderedCollection''"
| "type_value ORDERED_COLLECTION_PAGE = ''OrderedCollectionPage''"
| "type_value COLLECTION_PAGE = ''CollectionPage''"
| "type_value COLLECTION = ''Collection''"
| "type_value NOTE = ''Note''"
| "type_value ACCEPT = ''Accept''"
| "type_value REJECT = ''Reject''"
| "type_value FOLLOW = ''Follow''"
| "type_value DELETE = ''Delete''"
| "type_value UNDO = ''Undo''"
| "type_value IMAGE = ''Image''"
| "type_value TOMBSTONE = ''Tombstone''"

definition ActivityTypes :: "ActivityType list" where
  "ActivityTypes =
     [ANNOUNCE, BLOCK, LIKE, CREATE, UPDATE, PERSON, ORDERED_COLLECTION,
      ORDERED_COLLECTION_PAGE, COLLECTION_PAGE, COLLECTION, NOTE, ACCEPT, REJECT,
      FOLLOW, DELETE, UNDO, IMAGE, TOMBSTONE]"

text \<open>
  Exceptions.  \<open>Error\<close>, \<open>BadActivityError\<close>, \<open>UnexpectedActivityTypeError\<close> and
  \<open>NotFromOutboxError\<close> are the classes the module imports from \<open>.errors\<close>;
  \<open>UninitializedBackendError\<close> is the module's own \<open>Error\<close> instance; the others
  are Python's built-in exceptions raised by the operations the code performs.
  \<open>BackendFailure\<close> stands for whatever the backend raises when it cannot resolve
  an IRI.
\<close>

datatype error =
    UninitializedBackendError
  | BadActivityError
  | UnexpectedActivityTypeError
  | NotFromOutboxError
  | NotImplementedError
  | KeyError
  | ValueError
  | TypeError
  | AttributeError
  | IndexError
  | UnboundLocalError
  | RecursionError
  | BackendFailure

text \<open>\<open>ActivityType(x)\<close>: the member whose value is \<open>x\<close>, else \<open>ValueError\<close>.\<close>

definition ActivityType_of :: "json \<Rightarrow> error + ActivityType" where
  "ActivityType_of x =
     (case find (\<lambda>t. x = JStr (type_value t)) ActivityTypes of
        Some t \<Rightarrow> Inr t
      | None \<Rightarrow> Inl ValueError)"

text \<open>
  \<open>_ACTIVITY_CLS\<close>: the metaclass registers every subclass of \<open>BaseActivity\<close> under
  its \<open>ACTIVITY_TYPE\<close>.  The module defines fourteen of them.
\<close>

definition registered :: "ActivityType \<Rightarrow> bool" where
  "registered t =
     (t \<in> set [PERSON, BLOCK, COLLECTION, IMAGE, FOLLOW, ACCEPT, UNDO, LIKE, ANNOUNCE,
               DELETE, UPDATE, CREATE, TOMBSTONE, NOTE])"

text \<open>
  Class attributes.  \<open>Note\<close> declares \<open>OBJECT_REQURIED\<close> (sic), so its
  \<open>OBJECT_REQUIRED\<close> is the base class's \<open>False\<close>; \<open>Delete\<close> inherits
  \<open>ACTOR_REQUIRED = True\<close>.
\<close>

fun OBJECT_REQUIRED :: "ActivityType \<Rightarrow> bool" where
  "OBJECT_REQUIRED BLOCK = True"
| "OBJECT_REQUIRED FOLLOW = True"
| "OBJECT_REQUIRED ACCEPT = True"
| "OBJECT_REQUIRED UNDO = True"
| "OBJECT_REQUIRED LIKE = True"
| "OBJECT_REQUIRED ANNOUNCE = True"
| "OBJECT_REQUIRED DELETE = True"
| "OBJECT_REQUIRED UPDATE = True"
| "OBJECT_REQUIRED CREATE = True"
| "OBJECT_REQUIRED _ = False"

fun ACTOR_REQUIRED :: "ActivityType \<Rightarrow> bool" where
  "ACTOR_REQUIRED PERSON = False"
| "ACTOR_REQUIRED COLLECTION = False"
| "ACTOR_REQUIRED IMAGE = False"
| "ACTOR_REQUIRED TOMBSTONE = False"
| "ACTOR_REQUIRED _ = True"

fun ALLOWED_OBJECT_TYPES :: "ActivityType \<Rightarrow> ActivityType list" where
  "ALLOWED_OBJECT_TYPES FOLLOW = [PERSON]"
| "ALLOWED_OBJECT_TYPES ACCEPT = [FOLLOW]"
| "ALLOWED_OBJECT_TYPES UNDO = [FOLLOW, LIKE, ANNOUNCE]"
| "ALLOWED_OBJECT_TYPES LIKE = [NOTE]"
| "ALLOWED_OBJECT_TYPES ANNOUNCE = [NOTE]"
| "ALLOWED_OBJECT_TYPES DELETE = [NOTE, TOMBSTONE]"
| "ALLOWED_OBJECT_TYPES UPDATE = [NOTE, PERSON]"
| "ALLOWED_OBJECT_TYPES CREATE = [NOTE]"
| "ALLOWED_OBJECT_TYPES _ = []"

definition CTX_AS :: string where
  "CTX_AS = ''https://www.w3.org/ns/activitystreams''"

definition CTX_SECURITY :: string where
  "CTX_SECURITY = ''https://w3id.org/security/v1''"

definition AS_PUBLIC :: string where
  "AS_PUBLIC = ''https://www.w3.org/ns/activitystreams#Public''"

section \<open>Activities\<close>

text \<open>
  An instance of a subclass of \<open>BaseActivity\<close>: its class (given by the class's
  \<open>ACTIVITY_TYPE\<close>) and its \<open>_data\<close> dictionary.  Two flags record what the
  instance's private attributes hold:
  \<^item> \<open>ctx_set\<close>: \<open>set_ctx\<close> has replaced the initial \<open>__ctx = {}\<close> by a weak
    reference (calling the initial dictionary raises \<open>TypeError\<close>);
  \<^item> \<open>obj_reset\<close>: \<open>reset_object_cache\<close> has assigned \<open>__obj = None\<close>.  Until
    then a read of the never-assigned \<open>__obj\<close> goes through \<open>__getattr_\<close>.
  The object cache itself is not part of the state: a cached instance is the one
  \<open>get_object\<close> would build again from the same \<open>_data\<close> and the same backend.

  Methods whose Python name starts with an underscore get the prefix \<open>u_\<close>.
\<close>

record activity =
  ACTIVITY_TYPE :: ActivityType
  data :: dict
  ctx_set :: bool
  obj_reset :: bool

text \<open>\<open>__getattr_\<close>: the field if it is truthy, else \<open>None\<close>.\<close>

definition getattr :: "activity \<Rightarrow> string \<Rightarrow> json" where
  "getattr self name =
     (if truthy (dget_default (data self) name) then dget_default (data self) name
      else JNull)"

text \<open>
  What a method call can hand back where the code expects an activity: an instance, or
  (from the \<open>__getattr_\<close> fallback in \<open>get_object\<close>) a plain value.  Reading an
  attribute or calling a method of a plain value raises \<open>AttributeError\<close>.
\<close>

datatype pyobj = Instance activity | Plain json

definition as_activity :: "pyobj \<Rightarrow> error + activity" where
  "as_activity p = (case p of Instance a \<Rightarrow> Inr a | Plain v \<Rightarrow> Inl AttributeError)"

section \<open>The backend\<close>

text \<open>
  Modelled from the spec: the storage, transport and identity-lookup collaborator
  (\<open>backend.py\<close> and \<open>collection.py\<close> are not part of the sources at hand).  The
  spec gives its interface in section 6; the model is an in-memory store that records
  every call:
  \<^item> \<open>IRIS\<close>: the documents \<open>fetch_iri\<close> resolves (an IRI that is not in the table
    fails);
  \<^item> \<open>COLLECTION_ITEMS\<close>: the collection iterator \<open>parse_collection\<close>;
  \<^item> \<open>BLOCKS\<close>: pairs (owner id, blocked actor id) behind \<open>outbox_is_blocked\<close>;
  \<^item> \<open>OWNED\<close>: the predicate \<open>is_from_outbox\<close>;
  \<^item> \<open>RANDOM_IDS\<close>, \<open>MINTED\<close>: the identifiers \<open>random_object_id\<close> hands out and
    how many it has handed out; \<open>ACTIVITY_URL\<close>: \<open>activity_url\<close>;
  \<^item> \<open>INBOX\<close>, \<open>OUTBOX\<close>: the entries stored by \<open>inbox_new\<close> and \<open>outbox_new\<close>,
    each with the id of the owning actor;
  \<^item> \<open>EFFECTS\<close>: the relationship and side-effect callbacks received, in order;
  \<^item> \<open>DELIVERED\<close>: the calls of \<open>post_to_remote_inbox\<close>, in order.
  Three parameters of the interpreter are kept here as well: \<open>UTCNOW\<close> (the formatted
  clock reading), \<open>REPR\<close> (\<open>str\<close> of a value that is not a string) and
  \<open>RECURSION_LIMIT\<close> (how deep \<open>_recipients\<close> may nest before \<open>RecursionError\<close>).
\<close>

datatype callback =
    NEW_FOLLOWER | UNDO_NEW_FOLLOWER | NEW_FOLLOWING | UNDO_NEW_FOLLOWING
  | INBOX_LIKE | INBOX_UNDO_LIKE | OUTBOX_LIKE | OUTBOX_UNDO_LIKE
  | INBOX_ANNOUNCE | INBOX_UNDO_ANNOUNCE | OUTBOX_ANNOUNCE | OUTBOX_UNDO_ANNOUNCE
  | INBOX_CREATE | OUTBOX_CREATE | INBOX_DELETE | OUTBOX_DELETE
  | INBOX_UPDATE | OUTBOX_UPDATE

record backend =
  IRIS :: "(string \<times> dict) list"
  COLLECTION_ITEMS :: "dict \<Rightarrow> error + json list"
  BLOCKS :: "(json \<times> json) list"
  OWNED :: "activity \<Rightarrow> bool"
  RANDOM_IDS :: "nat \<Rightarrow> string"
  MINTED :: nat
  ACTIVITY_URL :: "string \<Rightarrow> string"
  UTCNOW :: string
  REPR :: "json \<Rightarrow> string"
  RECURSION_LIMIT :: nat
  INBOX :: "(json \<times> activity) list"
  OUTBOX :: "(json \<times> activity) list"
  EFFECTS :: "(callback \<times> json \<times> activity) list"
  DELIVERED :: "(json \<times> json \<times> json) list"

definition fetch_iri :: "backend \<Rightarrow> json \<Rightarrow> error + dict" where
  "fetch_iri b iri =
     (case iri of
        JStr s \<Rightarrow> (case map_of (IRIS b) s of Some d \<Rightarrow> Inr d | None \<Rightarrow> Inl BackendFailure)
      | _ \<Rightarrow> Inl BackendFailure)"

definition parse_collection :: "backend \<Rightarrow> dict \<Rightarrow> error + json list" where
  "parse_collection b raw = COLLECTION_ITEMS b raw"

definition outbox_is_blocked :: "backend \<Rightarrow> activity \<Rightarrow> json \<Rightarrow> bool" where
  "outbox_is_blocked b as_actor actor_id =
     ((getattr as_actor ''id'', actor_id) \<in> set (BLOCKS b))"

definition inbox_get_by_iri :: "backend \<Rightarrow> activity \<Rightarrow> json \<Rightarrow> activity option" where
  "inbox_get_by_iri b as_actor iri =
     map_option snd
       (find (\<lambda>e. fst e = getattr as_actor ''id'' \<and> getattr (snd e) ''id'' = iri)
          (INBOX b))"

definition inbox_new :: "backend \<Rightarrow> activity \<Rightarrow> activity \<Rightarrow> backend" where
  "inbox_new b as_actor a = b\<lparr>INBOX := INBOX b @ [(getattr as_actor ''id'', a)]\<rparr>"

definition outbox_new :: "backend \<Rightarrow> activity \<Rightarrow> activity \<Rightarrow> backend" where
  "outbox_new b as_actor a = b\<lparr>OUTBOX := OUTBOX b @ [(getattr as_actor ''id'', a)]\<rparr>"

definition is_from_outbox :: "backend \<Rightarrow> activity \<Rightarrow> bool" where
  "is_from_outbox b a = OWNED b a"

text \<open>
  \<open>new_follower\<close>, \<open>undo_new_follower\<close>, \<open>new_following\<close>, \<open>undo_new_following\<close>
  and \<open>inbox_\<close>/\<open>outbox_\<close> \<open>like\<close>, \<open>undo_like\<close>, \<open>announce\<close>, \<open>undo_announce\<close>,
  \<open>create\<close>, \<open>update\<close>, \<open>delete\<close>: each takes the owning actor and the activity.
\<close>

definition notify :: "callback \<Rightarrow> backend \<Rightarrow> activity \<Rightarrow> activity \<Rightarrow> backend" where
  "notify c b as_actor a = b\<lparr>EFFECTS := EFFECTS b @ [(c, getattr as_actor ''id'', a)]\<rparr>"

definition random_object_id :: "backend \<Rightarrow> string \<times> backend" where
  "random_object_id b = (RANDOM_IDS b (MINTED b), b\<lparr>MINTED := Suc (MINTED b)\<rparr>)"

definition activity_url :: "backend \<Rightarrow> string \<Rightarrow> string" where
  "activity_url b obj_id = ACTIVITY_URL b obj_id"

definition post_to_remote_inbox :: "backend \<Rightarrow> activity \<Rightarrow> json \<Rightarrow> json \<Rightarrow> backend" where
  "post_to_remote_inbox b as_actor payload recp =
     b\<lparr>DELIVERED := DELIVERED b @ [(getattr as_actor ''id'', payload, recp)]\<rparr>"


section \<open>Construction: \<open>BaseActivity.__init__\<close>\<close>

definition is_str :: "json \<Rightarrow> bool" where
  "is_str v = (case v of JStr s \<Rightarrow> True | _ \<Rightarrow> False)"

definition is_dict :: "json \<Rightarrow> bool" where
  "is_dict v = (case v of JObj d \<Rightarrow> True | _ \<Rightarrow> False)"

text \<open>\<open>str(v)\<close>.\<close>

definition py_str :: "backend \<Rightarrow> json \<Rightarrow> string" where
  "py_str b v = (case v of JStr s \<Rightarrow> s | _ \<Rightarrow> REPR b v)"

definition u_to_list :: "json \<Rightarrow> json list" where
  "u_to_list v = (case v of JList xs \<Rightarrow> xs | _ \<Rightarrow> [v])"

text \<open>\<open>_actor_id\<close>; the inline actor's \<open>obj["type"]\<close> raises \<open>KeyError\<close> when absent.\<close>

definition u_actor_id :: "json \<Rightarrow> error + json" where
  "u_actor_id obj =
     (case obj of
        JObj d \<Rightarrow>
          (case dget d ''type'' of
             None \<Rightarrow> Inl KeyError
           | Some tv \<Rightarrow>
               if tv = JStr (type_value PERSON) then
                 (if \<not> truthy (dget_default d ''id'') then Inl BadActivityError
                  else Inr (dget_default d ''id''))
               else Inl BadActivityError)
      | JStr s \<Rightarrow> Inr obj
      | _ \<Rightarrow> Inl BadActivityError)"

text \<open>\<open>_validate_person\<close>: any failure of \<open>fetch_iri\<close> becomes \<open>BadActivityError\<close>.\<close>

definition u_validate_person :: "backend option \<Rightarrow> json \<Rightarrow> error + json" where
  "u_validate_person B obj =
     (case B of
        None \<Rightarrow> Inl UninitializedBackendError
      | Some b \<Rightarrow>
          (case u_actor_id obj of
             Inl e \<Rightarrow> Inl e
           | Inr obj_id \<Rightarrow>
               (case fetch_iri b obj_id of
                  Inl e \<Rightarrow> Inl BadActivityError
                | Inr actor \<Rightarrow>
                    (case dget actor ''id'' of
                       None \<Rightarrow> Inl BadActivityError
                     | Some i \<Rightarrow> Inr i))))"

text \<open>
  The constructor, block by block.  No class of the module is without an
  \<open>ACTIVITY_TYPE\<close> except \<open>BaseActivity\<close> itself, which is never instantiated, so the
  first guard (``should never happen'') has no branch here.

  Lines 155 to 158: a truthy \<open>type\<close> argument is removed and must be the class's own.
\<close>

definition init_type :: "ActivityType \<Rightarrow> dict \<Rightarrow> error + dict" where
  "init_type t kwargs =
     (if truthy (dget_default kwargs ''type'') then
        (if dget_default kwargs ''type'' \<noteq> JStr (type_value t)
         then Inl UnexpectedActivityTypeError
         else Inr (ddel kwargs ''type''))
      else Inr kwargs)"

text \<open>Lines 167 to 169: the id, when given.\<close>

definition init_id :: "dict \<Rightarrow> dict \<Rightarrow> dict \<times> dict" where
  "init_id d kwargs =
     (case dget kwargs ''id'' of
        None \<Rightarrow> (d, kwargs)
      | Some i \<Rightarrow> (dset d ''id'' i, ddel kwargs ''id''))"

text \<open>Lines 171 to 181: the actor.\<close>

definition init_actor ::
  "backend option \<Rightarrow> ActivityType \<Rightarrow> dict \<Rightarrow> dict \<Rightarrow> error + dict \<times> dict" where
  "init_actor B t d kwargs =
     (if t \<noteq> PERSON \<and> ACTOR_REQUIRED t then
        (if truthy (dget_default kwargs ''actor'') then
           (case u_validate_person B (dget_default kwargs ''actor'') of
              Inl e \<Rightarrow> Inl e
            | Inr a \<Rightarrow> Inr (dset d ''actor'' a, ddel kwargs ''actor''))
         else if t = NOTE then
           (if \<not> has_key kwargs ''attributedTo'' then Inl BadActivityError
            else Inr (d, kwargs))
         else Inl BadActivityError)
      else Inr (d, kwargs))"

text \<open>
  Lines 183 to 200: the object.  A value that is neither a string nor a dictionary
  reaches \<open>"type" not in obj\<close> and \<open>obj["type"]\<close>, which raise \<open>TypeError\<close> where
  the value does not support them.
\<close>

definition init_object :: "ActivityType \<Rightarrow> dict \<Rightarrow> dict \<Rightarrow> error + dict \<times> dict" where
  "init_object t d kwargs =
     (if OBJECT_REQUIRED t then
        (case dget kwargs ''object'' of
           None \<Rightarrow> Inr (d, kwargs)
         | Some obj \<Rightarrow>
             (case obj of
                JStr s \<Rightarrow> Inr (dset d ''object'' obj, ddel kwargs ''object'')
              | JObj od \<Rightarrow>
                  if ALLOWED_OBJECT_TYPES t = [] then Inl UnexpectedActivityTypeError
                  else if \<not> has_key od ''type'' \<or> (t \<noteq> CREATE \<and> \<not> has_key od ''id'')
                  then Inl BadActivityError
                  else
                    (case ActivityType_of (dget_default od ''type'') of
                       Inl e \<Rightarrow> Inl e
                     | Inr ot \<Rightarrow>
                         if ot \<notin> set (ALLOWED_OBJECT_TYPES t)
                         then Inl UnexpectedActivityTypeError
                         else Inr (dset d ''object'' obj, ddel kwargs ''object''))
              | JList xs \<Rightarrow>
                  if ALLOWED_OBJECT_TYPES t = [] then Inl UnexpectedActivityTypeError
                  else if \<not> py_in (JStr ''type'') xs
                          \<or> (t \<noteq> CREATE \<and> \<not> py_in (JStr ''id'') xs)
                  then Inl BadActivityError
                  else Inl TypeError
              | _ \<Rightarrow>
                  if ALLOWED_OBJECT_TYPES t = [] then Inl UnexpectedActivityTypeError
                  else Inl TypeError))
      else Inr (d, kwargs))"

text \<open>
  Lines 202 to 218: the context.  \<open>normalize_context\<close> is the list the three
  \<open>@context\<close> checks leave, given the value found (or the default).
\<close>

definition context_terms :: dict where
  "context_terms = [(''Hashtag'', JStr ''as:Hashtag''), (''sensitive'', JStr ''as:sensitive'')]"

definition normalize_context :: "json \<Rightarrow> error + json list" where
  "normalize_context c =
     (let l1 = (case c of JList xs \<Rightarrow> xs | _ \<Rightarrow> [c]);
          l2 = (if \<not> py_in (JStr CTX_SECURITY) l1 then l1 @ [JStr CTX_SECURITY] else l1)
      in case rev l2 of
           [] \<Rightarrow> Inl IndexError
         | x # front \<Rightarrow>
             (case x of
                JObj m \<Rightarrow> Inr (rev front @ [JObj (dupdate m context_terms)])
              | _ \<Rightarrow> Inr (l2 @ [JObj context_terms])))"

definition init_context :: "dict \<Rightarrow> dict \<Rightarrow> error + dict \<times> dict" where
  "init_context d kwargs =
     (case normalize_context
             (case dget kwargs ''@context'' of None \<Rightarrow> JStr CTX_AS | Some c \<Rightarrow> c) of
        Inl e \<Rightarrow> Inl e
      | Inr l \<Rightarrow> Inr (dset d ''@context'' (JList l), ddel kwargs ''@context''))"

text \<open>Lines 155 to 218 together: the instance so far and the arguments left.\<close>

definition init_fields ::
  "backend option \<Rightarrow> ActivityType \<Rightarrow> dict \<Rightarrow> error + activity \<times> dict" where
  "init_fields B t kwargs =
     (case init_type t kwargs of
        Inl e \<Rightarrow> Inl e
      | Inr k1 \<Rightarrow>
          (case init_id [(''type'', JStr (type_value t))] k1 of
             (d2, k2) \<Rightarrow>
               (case init_actor B t d2 k2 of
                  Inl e \<Rightarrow> Inl e
                | Inr (d3, k3) \<Rightarrow>
                    (case init_object t d3 k3 of
                       Inl e \<Rightarrow> Inl e
                     | Inr (d4, k4) \<Rightarrow>
                         (case init_context d4 k4 of
                            Inl e \<Rightarrow> Inl e
                          | Inr (d5, k5) \<Rightarrow>
                              Inr (\<lparr>ACTIVITY_TYPE = t, data = d5, ctx_set = False,
                                    obj_reset = False\<rparr>, k5))))))"

text \<open>
  Lines 228 to 240.  Every \<open>_init\<close> of the module returns \<open>None\<close>, so the
  \<open>allowed_keys\<close> branch is never taken: the arguments left that are not \<open>None\<close>
  are merged into \<open>_data\<close>.
\<close>

definition init_finish :: "activity \<Rightarrow> dict \<Rightarrow> activity" where
  "init_finish self kwargs =
     self\<lparr>data := dupdate (data self) (filter (\<lambda>kv. snd kv \<noteq> JNull) kwargs)\<rparr>"

text \<open>\<open>Image._init\<close> and \<open>Note._init\<close>.\<close>

definition Image_init :: "activity \<Rightarrow> dict \<Rightarrow> error + activity" where
  "Image_init self kwargs =
     (case dget kwargs ''url'' of
        None \<Rightarrow> Inl KeyError
      | Some u \<Rightarrow> Inr (self\<lparr>data := dset (data self) ''url'' u\<rparr>))"

definition Note_init :: "activity \<Rightarrow> dict \<Rightarrow> error + activity" where
  "Note_init self kwargs =
     Inr (if \<not> has_key kwargs ''sensitive''
          then self\<lparr>data := dset (data self) ''sensitive'' (JBool False)\<rparr>
          else self)"

text \<open>\<open>self._data["object"][k] = v\<close>.\<close>

definition object_setitem :: "activity \<Rightarrow> string \<Rightarrow> json \<Rightarrow> error + activity" where
  "object_setitem self k v =
     (case dget (data self) ''object'' of
        None \<Rightarrow> Inl KeyError
      | Some obj \<Rightarrow>
          (case obj of
             JObj od \<Rightarrow> Inr (self\<lparr>data := dset (data self) ''object'' (JObj (dset od k v))\<rparr>)
           | _ \<Rightarrow> Inl TypeError))"

text \<open>The second half of \<open>Create._init\<close>: the \<open>published\<close> stamp.\<close>

definition Create_init_published :: "string \<Rightarrow> activity \<Rightarrow> activity \<Rightarrow> error + activity" where
  "Create_init_published now obj self =
     (if \<not> truthy (getattr obj ''published'') then
        (if truthy (getattr self ''published'')
         then object_setitem self ''published'' (getattr self ''published'')
         else object_setitem (self\<lparr>data := dset (data self) ''published'' (JStr now)\<rparr>)
                ''published'' (JStr now))
      else Inr self)"

text \<open>
  Measures for the recursion below: whether a call builds a \<open>Create\<close>, and the
  size of the object it carries.
\<close>

definition creates :: "ActivityType \<Rightarrow> nat" where
  "creates t = (if t = CREATE then 1 else 0)"

definition payload_level :: "dict \<Rightarrow> nat" where
  "payload_level d =
     (case dget d ''type'' of
        None \<Rightarrow> 0
      | Some tv \<Rightarrow> (case ActivityType_of tv of Inl e \<Rightarrow> 0 | Inr t \<Rightarrow> creates t))"

definition object_size :: "dict \<Rightarrow> nat" where
  "object_size d = (case dget d ''object'' of None \<Rightarrow> 0 | Some v \<Rightarrow> size v)"

definition call_measure ::
  "((backend option \<times> dict \<times> ActivityType option) + (backend option \<times> ActivityType \<times> dict))
   + ((backend option \<times> activity \<times> dict)
      + ((backend option \<times> activity) + (backend option \<times> activity)))
   \<Rightarrow> nat \<times> nat \<times> nat" where
  "call_measure c =
     (case c of
        Inl (Inl (B, payload, expected)) \<Rightarrow> (payload_level payload, object_size payload, 3)
      | Inl (Inr (B, t, kwargs)) \<Rightarrow> (creates t, object_size kwargs, 2)
      | Inr (Inl (B, self, kwargs)) \<Rightarrow> (1, object_size (data self), 1)
      | Inr (Inr (Inl (B, self))) \<Rightarrow> (1, object_size (data self), 0)
      | Inr (Inr (Inr (B, self))) \<Rightarrow> (1, 0, 0))"

text \<open>
  \<open>parse_activity\<close>, the constructor with its \<open>_init\<close> callback, \<open>Create._init\<close>,
  \<open>get_object\<close> and \<open>get_actor\<close> call each other: a \<open>Create\<close> parses its object
  while it is being built.
\<close>

function
  parse_activity :: "backend option \<Rightarrow> dict \<Rightarrow> ActivityType option \<Rightarrow> error + activity"
  and init :: "backend option \<Rightarrow> ActivityType \<Rightarrow> dict \<Rightarrow> error + activity"
  and Create_init :: "backend option \<Rightarrow> activity \<Rightarrow> dict \<Rightarrow> error + activity"
  and get_object :: "backend option \<Rightarrow> activity \<Rightarrow> error + pyobj"
  and get_actor :: "backend option \<Rightarrow> activity \<Rightarrow> error + activity"
where
  "parse_activity B payload expected =
     (case dget payload ''type'' of
        None \<Rightarrow> Inl KeyError
      | Some tv \<Rightarrow>
          (case ActivityType_of tv of
             Inl e \<Rightarrow> Inl e
           | Inr t \<Rightarrow>
               if expected \<noteq> None \<and> expected \<noteq> Some t then Inl UnexpectedActivityTypeError
               else if \<not> registered t then Inl BadActivityError
               else init B t payload))"
| "init B t kwargs =
     (case init_fields B t kwargs of
        Inl e \<Rightarrow> Inl e
      | Inr (self, kw) \<Rightarrow>
          (case (if t = IMAGE then Image_init self kw
                 else if t = NOTE then Note_init self kw
                 else if t = CREATE then Create_init B self kw
                 else Inl NotImplementedError) of
             Inl e \<Rightarrow> if e = NotImplementedError then Inr (init_finish self kw) else Inl e
           | Inr self' \<Rightarrow> Inr (init_finish self' kw)))"
| "Create_init B self kwargs =
     (case B of
        None \<Rightarrow> Inl UninitializedBackendError
      | Some b \<Rightarrow>
          (case get_object B self of
             Inl e \<Rightarrow> Inl e
           | Inr p \<Rightarrow>
               (case as_activity p of
                  Inl e \<Rightarrow> Inl e
                | Inr obj \<Rightarrow>
                    (case (if \<not> truthy (getattr obj ''attributedTo'') then
                             (case get_actor B self of
                                Inl e \<Rightarrow> Inl e
                              | Inr actor \<Rightarrow>
                                  object_setitem self ''attributedTo'' (getattr actor ''id''))
                           else Inr self) of
                       Inl e \<Rightarrow> Inl e
                     | Inr self1 \<Rightarrow> Create_init_published (UTCNOW b) obj self1))))"
| "get_object B self =
     (case B of
        None \<Rightarrow> Inl UninitializedBackendError
      | Some b \<Rightarrow>
          if \<not> obj_reset self \<and> truthy (getattr self ''_BaseActivity__obj'')
          then Inr (Plain (getattr self ''_BaseActivity__obj''))
          else
            (case dget (data self) ''object'' of
               None \<Rightarrow> Inl KeyError
             | Some ob \<Rightarrow>
                 (case ob of
                    JObj od \<Rightarrow> map_sum id Instance (parse_activity B od None)
                  | _ \<Rightarrow>
                      (case fetch_iri b ob of
                         Inl e \<Rightarrow> Inl e
                       | Inr obj \<Rightarrow>
                           (case ActivityType_of (dget_default obj ''type'') of
                              Inl e \<Rightarrow> Inl e
                            | Inr ot \<Rightarrow>
                                if ot \<notin> set (ALLOWED_OBJECT_TYPES (ACTIVITY_TYPE self))
                                then Inl UnexpectedActivityTypeError
                                else map_sum id Instance (parse_activity B obj None))))))"
| "get_actor B self =
     (case B of
        None \<Rightarrow> Inl UninitializedBackendError
      | Some b \<Rightarrow>
          (case (if \<not> truthy (dget_default (data self) ''actor'')
                    \<and> ACTOR_REQUIRED (ACTIVITY_TYPE self)
                 then (if ACTIVITY_TYPE self = NOTE
                       then Inr (JStr (py_str b (dget_default (data self) ''attributedTo'')))
                       else Inl BadActivityError)
                 else Inr (dget_default (data self) ''actor'')) of
             Inl e \<Rightarrow> Inl e
           | Inr actor \<Rightarrow>
               if \<not> (is_str actor \<or> is_dict actor) then Inl BadActivityError
               else
                 (case u_actor_id actor of
                    Inl e \<Rightarrow> Inl e
                  | Inr actor_id \<Rightarrow>
                      (case fetch_iri b actor_id of
                         Inl e \<Rightarrow> Inl e
                       | Inr doc \<Rightarrow> init B PERSON doc))))"
  by pat_completeness auto

lemma dget_dset: "dget (dset d k v) k' = (if k' = k then Some v else dget d k')"
  by (simp add: dget_def dset_def update_conv')

lemma dget_ddel: "dget (ddel d k) k' = (if k' = k then None else dget d k')"
  by (simp add: dget_def ddel_def delete_conv')


lemma size_map_of: "map_of d k = Some v \<Longrightarrow> size v < Suc (size_list (size_prod (\<lambda>_. 0) size) d)"
  by (induction d) (auto split: if_splits)

lemma object_size_less: "object_size d < size (JObj d)"
  using size_map_of [of d "''object''"]
  by (auto simp: object_size_def dget_def split: option.splits)

lemma init_type_object: "init_type t kwargs = Inr k1 \<Longrightarrow> dget k1 ''object'' = dget kwargs ''object''"
  by (auto simp: init_type_def dget_ddel split: if_splits)

lemma init_id_object:
  "init_id d kwargs = (d2, k2) \<Longrightarrow>
   dget k2 ''object'' = dget kwargs ''object'' \<and> dget d2 ''object'' = dget d ''object''"
  by (auto simp: init_id_def dget_ddel dget_dset split: option.splits)

lemma init_actor_object:
  "init_actor B t d kwargs = Inr (d3, k3) \<Longrightarrow>
   dget k3 ''object'' = dget kwargs ''object'' \<and> dget d3 ''object'' = dget d ''object''"
  by (auto simp: init_actor_def dget_ddel dget_dset split: if_splits sum.splits)

lemma init_object_object:
  "init_object CREATE d kwargs = Inr (d4, k4) \<Longrightarrow> dget d ''object'' = None \<Longrightarrow>
   dget d4 ''object'' = dget kwargs ''object''"
  by (auto simp: init_object_def dget_ddel dget_dset split: if_splits sum.splits option.splits json.splits)

lemma init_context_object:
  "init_context d kwargs = Inr (d5, k5) \<Longrightarrow> dget d5 ''object'' = dget d ''object''"
  by (auto simp: init_context_def dget_ddel dget_dset split: if_splits sum.splits)

lemma init_fields_object:
  assumes "init_fields B CREATE kwargs = Inr (self, kw)"
  shows "object_size (data self) = object_size kwargs"
proof -
  from assms obtain k1 d2 k2 d3 k3 d4 k4 d5 k5 where
    s: "init_type CREATE kwargs = Inr k1"
       "init_id [(''type'', JStr (type_value CREATE))] k1 = (d2, k2)"
       "init_actor B CREATE d2 k2 = Inr (d3, k3)"
       "init_object CREATE d3 k3 = Inr (d4, k4)"
       "init_context d4 k4 = Inr (d5, k5)"
       "data self = d5"
    by (auto simp: init_fields_def split: sum.splits prod.splits)
  have "dget d3 ''object'' = None"
    using init_actor_object [OF s(3)] init_id_object [OF s(2)] by (simp add: dget_def)
  then have "dget d4 ''object'' = dget k3 ''object''"
    using init_object_object [OF s(4)] by simp
  then show ?thesis
    using init_context_object [OF s(5)] init_actor_object [OF s(3)] init_id_object [OF s(2)]
      init_type_object [OF s(1)] s(6)
    by (simp add: object_size_def)
qed

lemma CREATE_not_allowed: "ot \<in> set (ALLOWED_OBJECT_TYPES t) \<Longrightarrow> ot \<noteq> CREATE"
  by (cases t) auto

lemma payload_level_allowed:
  "ActivityType_of (dget_default obj ''type'') = Inr ot \<Longrightarrow>
   ot \<in> set (ALLOWED_OBJECT_TYPES t) \<Longrightarrow> payload_level obj = 0"
  by (auto simp: payload_level_def dget_default_def dget_def creates_def
      dest: CREATE_not_allowed split: option.splits sum.splits)

lemma payload_level_le: "payload_level d \<le> 1"
  by (simp add: payload_level_def creates_def split: option.splits sum.splits)

termination parse_activity
proof (relation "inv_image (less_than <*lex*> less_than <*lex*> less_than) call_measure",
    goal_cases)
  case 1
  show ?case by (intro wf_inv_image wf_lex_prod wf_less_than)
next
  case (2 payload expected tv t)
  then show ?case by (simp add: call_measure_def payload_level_def)
next
  case (3 B t kwargs r self kw)
  then show ?case
    using init_fields_object [of B kwargs self kw] by (auto simp: call_measure_def creates_def)
next
  case 4
  then show ?case by (simp add: call_measure_def)
next
  case 5
  then show ?case by (auto simp: call_measure_def)
next
  case 6
  then show ?case by (auto simp: call_measure_def payload_level_allowed)
next
  case 7
  then show ?case by (auto simp: call_measure_def payload_level_allowed)
next
  case 8
  then show ?case by (auto simp: call_measure_def payload_level_allowed)
next
  case 9
  then show ?case by (auto simp: call_measure_def payload_level_allowed)
next
  case 10
  then show ?case by (auto simp: call_measure_def payload_level_allowed)
next
  case (11 B self b ob od)
  then show ?case
    using object_size_less [of od] payload_level_le [of od]
    by (auto simp: call_measure_def object_size_def)
next
  case 12
  then show ?case by (auto simp: call_measure_def creates_def)
qed

declare parse_activity.simps [simp del] init.simps [simp del] Create_init.simps [simp del]
  get_object.simps [simp del] get_actor.simps [simp del]

section \<open>Serialization\<close>

text \<open>
  \<open>to_dict\<close>: a copy of \<open>_data\<close>, without \<open>@context\<close> and \<open>signature\<close> when
  \<open>embed\<close>, and with a truthy inline object replaced by its id when
  \<open>embed_object_id_only\<close>.
\<close>

definition to_dict :: "activity \<Rightarrow> bool \<Rightarrow> bool \<Rightarrow> error + dict" where
  "to_dict self embed_flag embed_object_id_only =
     (let d = (if embed_flag then ddel (ddel (data self) ''@context'') ''signature''
               else data self)
      in if truthy (dget_default d ''object'') \<and> embed_object_id_only
            \<and> is_dict (dget_default d ''object'')
         then
           (case dget_default d ''object'' of
              JObj od \<Rightarrow>
                (case dget od ''id'' of
                   None \<Rightarrow> Inl BadActivityError
                 | Some i \<Rightarrow> Inr (dset d ''object'' i))
            | _ \<Rightarrow> Inr d)
         else Inr d)"

text \<open>\<open>t in s\<close> for strings: \<open>t\<close> occurs in \<open>s\<close>.\<close>

fun contains :: "string \<Rightarrow> string \<Rightarrow> bool" where
  "contains [] t = (t = [])"
| "contains (c # cs) t = (take (length t) (c # cs) = t \<or> contains cs t)"

text \<open>
  One round of the loop of \<open>clean_activity\<close>.  \<open>field in activity["object"]\<close> is
  a key test on a dictionary, a substring test on a string and a membership test on a
  list; any other value is not iterable.  \<open>del\<close> works on a dictionary only.
\<close>

definition clean_field :: "dict \<Rightarrow> string \<Rightarrow> error + dict" where
  "clean_field activity field =
     (let a1 = (if has_key activity field then ddel activity field else activity)
      in case dget a1 ''type'' of
           None \<Rightarrow> Inl KeyError
         | Some tv \<Rightarrow>
             if tv = JStr ''Create'' then
               (case dget a1 ''object'' of
                  None \<Rightarrow> Inl KeyError
                | Some obj \<Rightarrow>
                    (case obj of
                       JObj od \<Rightarrow>
                         if has_key od field
                         then Inr (dset a1 ''object'' (JObj (ddel od field)))
                         else Inr a1
                     | JStr st \<Rightarrow> if contains st field then Inl TypeError else Inr a1
                     | JList xs \<Rightarrow> if py_in (JStr field) xs then Inl TypeError else Inr a1
                     | _ \<Rightarrow> Inl TypeError))
             else Inr a1)"

definition clean_activity :: "dict \<Rightarrow> error + dict" where
  "clean_activity activity =
     (case clean_field activity ''bto'' of
        Inl e \<Rightarrow> Inl e
      | Inr a1 \<Rightarrow> clean_field a1 ''bcc'')"

section \<open>Identifier assignment\<close>

text \<open>
  \<open>Create._outbox_set_id\<close>.  \<open>self.ctx()\<close> calls the private \<open>__ctx\<close>: the empty
  dictionary the constructor put there unless \<open>set_ctx\<close> has replaced it by a weak
  reference.  What the weak reference points to (the wrapped \<open>Note\<close>, whose \<open>id\<close>
  attribute is assigned) is another object and not part of this state.
\<close>

definition Create_outbox_set_id ::
  "activity \<Rightarrow> string \<Rightarrow> string \<Rightarrow> (error + unit) \<times> activity" where
  "Create_outbox_set_id self uri obj_id =
     (case object_setitem self ''id'' (JStr (uri @ ''/activity'')) of
        Inl e \<Rightarrow> (Inl e, self)
      | Inr self1 \<Rightarrow>
          if \<not> ctx_set self1 then (Inl TypeError, self1)
          else (Inr (), self1\<lparr>obj_reset := True\<rparr>))"

definition u_outbox_set_id ::
  "activity \<Rightarrow> string \<Rightarrow> string \<Rightarrow> (error + unit) \<times> activity" where
  "u_outbox_set_id self uri obj_id =
     (if ACTIVITY_TYPE self = CREATE then Create_outbox_set_id self uri obj_id
      else (Inl NotImplementedError, self))"

definition outbox_set_id ::
  "activity \<Rightarrow> string \<Rightarrow> string \<Rightarrow> (error + unit) \<times> activity" where
  "outbox_set_id self uri obj_id =
     (case u_outbox_set_id (self\<lparr>data := dset (data self) ''id'' (JStr uri)\<rparr>) uri obj_id of
        (Inl e, self') \<Rightarrow>
          if e = NotImplementedError then (Inr (), self') else (Inl e, self')
      | (Inr u, self') \<Rightarrow> (Inr (), self'))"

section \<open>Recipients\<close>

text \<open>\<open>Delete._get_actual_object\<close>.\<close>

definition u_get_actual_object :: "backend option \<Rightarrow> activity \<Rightarrow> error + activity" where
  "u_get_actual_object B self =
     (case B of
        None \<Rightarrow> Inl UninitializedBackendError
      | Some b \<Rightarrow>
          (case get_object B self of
             Inl e \<Rightarrow> Inl e
           | Inr p \<Rightarrow>
               (case as_activity p of
                  Inl e \<Rightarrow> Inl e
                | Inr obj \<Rightarrow>
                    if ACTIVITY_TYPE obj = TOMBSTONE then
                      (case fetch_iri b (getattr obj ''id'') of
                         Inl e \<Rightarrow> Inl e
                       | Inr doc \<Rightarrow> parse_activity B doc None)
                    else Inr obj)))"

text \<open>\<open>x.get_object().id\<close> and \<open>x.get_object().get_actor().id\<close>.\<close>

definition object_id :: "backend option \<Rightarrow> activity \<Rightarrow> error + json" where
  "object_id B self =
     (case get_object B self of
        Inl e \<Rightarrow> Inl e
      | Inr p \<Rightarrow> (case as_activity p of Inl e \<Rightarrow> Inl e | Inr obj \<Rightarrow> Inr (getattr obj ''id'')))"

definition object_actor_id :: "backend option \<Rightarrow> activity \<Rightarrow> error + json" where
  "object_actor_id B self =
     (case get_object B self of
        Inl e \<Rightarrow> Inl e
      | Inr p \<Rightarrow>
          (case as_activity p of
             Inl e \<Rightarrow> Inl e
           | Inr obj \<Rightarrow>
               (case get_actor B obj of
                  Inl e \<Rightarrow> Inl e
                | Inr actor \<Rightarrow> Inr (getattr actor ''id''))))"

text \<open>The audience fields of \<open>_data\<close> that are present, in the given order.\<close>

fun audience :: "dict \<Rightarrow> string list \<Rightarrow> json list" where
  "audience d [] = []"
| "audience d (field # fs) =
     (case dget d field of
        None \<Rightarrow> audience d fs
      | Some v \<Rightarrow> u_to_list v @ audience d fs)"

text \<open>
  \<open>list(set(xs))\<close>: a list or dictionary is not hashable; equal elements are kept
  once.  Python leaves the order of a set open; the model keeps first occurrences in
  order.
\<close>

fun list_of_set :: "json list \<Rightarrow> json list \<Rightarrow> error + json list" where
  "list_of_set acc [] = Inr acc"
| "list_of_set acc (x # xs) =
     (case x of
        JList l \<Rightarrow> Inl TypeError
      | JObj d \<Rightarrow> Inl TypeError
      | _ \<Rightarrow> list_of_set (if py_in x acc then acc else acc @ [x]) xs)"

text \<open>
  \<open>_recipients\<close>, by class.  \<open>Delete\<close> and \<open>Create\<close> call \<open>_recipients\<close> of
  another activity; a \<open>Delete\<close> of a tombstone may be led back to itself by the
  backend, which Python ends with \<open>RecursionError\<close>.  The first argument is the
  nesting depth still available.
\<close>

fun u_recipients :: "nat \<Rightarrow> backend option \<Rightarrow> activity \<Rightarrow> error + json list" where
  "u_recipients 0 B self = Inl RecursionError"
| "u_recipients (Suc n) B self =
     (if ACTIVITY_TYPE self = FOLLOW then
        (case object_id B self of Inl e \<Rightarrow> Inl e | Inr i \<Rightarrow> Inr [i])
      else if ACTIVITY_TYPE self = ACCEPT \<or> ACTIVITY_TYPE self = LIKE then
        (case object_actor_id B self of Inl e \<Rightarrow> Inl e | Inr i \<Rightarrow> Inr [i])
      else if ACTIVITY_TYPE self = UNDO then
        (case get_object B self of
           Inl e \<Rightarrow> Inl e
         | Inr p \<Rightarrow>
             (case as_activity p of
                Inl e \<Rightarrow> Inl e
              | Inr obj \<Rightarrow>
                  if ACTIVITY_TYPE obj = FOLLOW then
                    (case object_id B obj of Inl e \<Rightarrow> Inl e | Inr i \<Rightarrow> Inr [i])
                  else
                    (case object_actor_id B obj of Inl e \<Rightarrow> Inl e | Inr i \<Rightarrow> Inr [i])))
      else if ACTIVITY_TYPE self = ANNOUNCE then
        (case object_actor_id B self of
           Inl e \<Rightarrow> Inl e
         | Inr i \<Rightarrow> list_of_set [] (i # audience (data self) [''to'', ''cc'']))
      else if ACTIVITY_TYPE self = DELETE then
        (case u_get_actual_object B self of
           Inl e \<Rightarrow> Inl e
         | Inr obj \<Rightarrow> u_recipients n B obj)
      else if ACTIVITY_TYPE self = CREATE then
        (case get_object B self of
           Inl e \<Rightarrow> Inl e
         | Inr p \<Rightarrow>
             (case as_activity p of
                Inl e \<Rightarrow> Inl e
              | Inr obj \<Rightarrow>
                  (case u_recipients n B obj of
                     Inl e \<Rightarrow> Inl e
                   | Inr rs \<Rightarrow>
                       Inr (audience (data self) [''to'', ''cc'', ''bto'', ''bcc''] @ rs))))
      else if ACTIVITY_TYPE self = NOTE then
        Inr (audience (data self) [''to'', ''cc'', ''bto'', ''bcc''])
      else Inr [])"

text \<open>
  The endpoint of a resolved \<open>Person\<close>, as both branches of \<open>recipients\<close> pick it:
  with truthy \<open>endpoints\<close>, \<open>endpoints.get("sharedInbox")\<close> is appended unless it is
  in \<open>out\<close> already (and the loop continues); otherwise, and also when that value was
  in \<open>out\<close>, the \<open>inbox\<close> is appended if truthy and new.
\<close>

definition add_inbox :: "activity \<Rightarrow> json list \<Rightarrow> json list" where
  "add_inbox actor out =
     (if truthy (getattr actor ''inbox'') \<and> \<not> py_in (getattr actor ''inbox'') out
      then out @ [getattr actor ''inbox''] else out)"

definition add_endpoint :: "activity \<Rightarrow> json list \<Rightarrow> error + json list" where
  "add_endpoint actor out =
     (if truthy (getattr actor ''endpoints'') then
        (case getattr actor ''endpoints'' of
           JObj ep \<Rightarrow>
             if \<not> py_in (dget_default ep ''sharedInbox'') out
             then Inr (out @ [dget_default ep ''sharedInbox''])
             else Inr (add_inbox actor out)
         | _ \<Rightarrow> Inl AttributeError)
      else Inr (add_inbox actor out))"

text \<open>
  The loop over the members of a collection.  \<open>col_actor\<close> is a local variable of
  \<open>recipients\<close>: when \<open>Person(...)\<close> raises \<open>UnexpectedActivityTypeError\<close> the
  exception is logged and the code goes on with the value of the previous round (or
  \<open>UnboundLocalError\<close> if there is none).
\<close>

fun collection_loop ::
  "backend \<Rightarrow> json \<Rightarrow> json list \<Rightarrow> json list \<times> activity option
   \<Rightarrow> error + json list \<times> activity option" where
  "collection_loop b actor_id [] st = Inr st"
| "collection_loop b actor_id (item # items) st =
     (if py_in item [actor_id, JStr AS_PUBLIC] then collection_loop b actor_id items st
      else
        (case fetch_iri b item of
           Inl e \<Rightarrow> Inl e
         | Inr doc \<Rightarrow>
             (case (case init (Some b) PERSON doc of
                      Inl e \<Rightarrow> if e = UnexpectedActivityTypeError then Inr (snd st) else Inl e
                    | Inr p \<Rightarrow> Inr (Some p)) of
                Inl e \<Rightarrow> Inl e
              | Inr None \<Rightarrow> Inl UnboundLocalError
              | Inr (Some col_actor) \<Rightarrow>
                  (case add_endpoint col_actor (fst st) of
                     Inl e \<Rightarrow> Inl e
                   | Inr out \<Rightarrow> collection_loop b actor_id items (out, Some col_actor)))))"

text \<open>
  The main loop of \<open>recipients\<close>.  The raw recipients are decoded values, never
  \<open>Person\<close> instances, so the \<open>isinstance(recipient, Person)\<close> branch is not taken.
\<close>

fun recipients_loop ::
  "backend \<Rightarrow> json \<Rightarrow> json list \<Rightarrow> json list \<times> activity option
   \<Rightarrow> error + json list \<times> activity option" where
  "recipients_loop b actor_id [] st = Inr st"
| "recipients_loop b actor_id (recipient # rest) st =
     (if py_in recipient [actor_id, JStr AS_PUBLIC, JNull]
      then recipients_loop b actor_id rest st
      else
        (case fetch_iri b recipient of
           Inl e \<Rightarrow> Inl e
         | Inr raw_actor \<Rightarrow>
             (case dget raw_actor ''type'' of
                None \<Rightarrow> Inl KeyError
              | Some tv \<Rightarrow>
                  if tv = JStr (type_value PERSON) then
                    (case init (Some b) PERSON raw_actor of
                       Inl e \<Rightarrow> Inl e
                     | Inr actor \<Rightarrow>
                         (case add_endpoint actor (fst st) of
                            Inl e \<Rightarrow> Inl e
                          | Inr out \<Rightarrow> recipients_loop b actor_id rest (out, snd st)))
                  else if tv = JStr (type_value COLLECTION)
                          \<or> tv = JStr (type_value ORDERED_COLLECTION) then
                    (case parse_collection b raw_actor of
                       Inl e \<Rightarrow> Inl e
                     | Inr items \<Rightarrow>
                         (case collection_loop b actor_id items st of
                            Inl e \<Rightarrow> Inl e
                          | Inr st' \<Rightarrow> recipients_loop b actor_id rest st'))
                  else Inl BadActivityError)))"

definition recipients :: "backend option \<Rightarrow> activity \<Rightarrow> error + json list" where
  "recipients B self =
     (case B of
        None \<Rightarrow> Inl UninitializedBackendError
      | Some b \<Rightarrow>
          (case u_recipients (RECURSION_LIMIT b) B self of
             Inl e \<Rightarrow> Inl e
           | Inr rs \<Rightarrow>
               (case get_actor B self of
                  Inl e \<Rightarrow> Inl e
                | Inr actor \<Rightarrow>
                    map_sum id fst (recipients_loop b (getattr actor ''id'') rs ([], None)))))"

section \<open>The outbox pipeline\<close>

text \<open>
  The hooks are reached from the two pipelines only, after the pipeline has found
  \<open>BACKEND\<close> installed; they take the installed backend, and their own
  \<open>BACKEND is None\<close> guards have no branch.  A hook returns the outcome and the
  backend as its calls have left it.

  \<open>_pre_post_to_outbox\<close> of \<open>Undo\<close>, \<open>Delete\<close> and \<open>Update\<close>.  In \<open>Delete\<close>
  the message of the exception subscripts an activity (\<open>obj["id"]\<close>), so the failed
  ownership check surfaces as \<open>TypeError\<close>.
\<close>

definition u_pre_post_to_outbox :: "backend \<Rightarrow> activity \<Rightarrow> error + unit" where
  "u_pre_post_to_outbox b self =
     (if ACTIVITY_TYPE self = UNDO \<or> ACTIVITY_TYPE self = UPDATE then
        (if \<not> is_from_outbox b self then Inl NotFromOutboxError else Inr ())
      else if ACTIVITY_TYPE self = DELETE then
        (case u_get_actual_object (Some b) self of
           Inl e \<Rightarrow> Inl e
         | Inr obj \<Rightarrow> if \<not> is_from_outbox b self then Inl TypeError else Inr ())
      else Inl NotImplementedError)"

text \<open>\<open>_undo_outbox\<close> of \<open>Follow\<close>, \<open>Like\<close> and \<open>Announce\<close>.\<close>

definition u_undo_outbox :: "backend \<Rightarrow> activity \<Rightarrow> activity \<Rightarrow> (error + unit) \<times> backend" where
  "u_undo_outbox b self as_actor =
     (if ACTIVITY_TYPE self = FOLLOW then (Inr (), notify UNDO_NEW_FOLLOWING b as_actor self)
      else if ACTIVITY_TYPE self = LIKE then (Inr (), notify OUTBOX_UNDO_LIKE b as_actor self)
      else if ACTIVITY_TYPE self = ANNOUNCE
      then (Inr (), notify OUTBOX_UNDO_ANNOUNCE b as_actor self)
      else (Inl NotImplementedError, b))"

text \<open>
  \<open>_post_to_outbox\<close>.  \<open>Follow\<close> does nothing (``the new_following event will be
  triggered by Accept''); \<open>Undo\<close> hands over to the \<open>_undo_outbox\<close> of its object
  and swallows \<open>NotImplementedError\<close>.
\<close>

definition u_post_to_outbox ::
  "backend \<Rightarrow> activity \<Rightarrow> activity \<Rightarrow> string \<Rightarrow> dict \<Rightarrow> json list
   \<Rightarrow> (error + unit) \<times> backend" where
  "u_post_to_outbox b self as_actor obj_id activity recips =
     (if ACTIVITY_TYPE self = FOLLOW then (Inr (), b)
      else if ACTIVITY_TYPE self = UNDO then
        (case get_object (Some b) self of
           Inl e \<Rightarrow> (Inl e, b)
         | Inr p \<Rightarrow>
             (case as_activity p of
                Inl e \<Rightarrow> (Inl e, b)
              | Inr obj \<Rightarrow>
                  (case u_undo_outbox b obj as_actor of
                     (Inl e, b') \<Rightarrow>
                       if e = NotImplementedError then (Inr (), b') else (Inl e, b')
                   | (Inr u, b') \<Rightarrow> (Inr (), b'))))
      else if ACTIVITY_TYPE self = LIKE then (Inr (), notify OUTBOX_LIKE b as_actor self)
      else if ACTIVITY_TYPE self = ANNOUNCE then (Inr (), notify OUTBOX_ANNOUNCE b as_actor self)
      else if ACTIVITY_TYPE self = DELETE then (Inr (), notify OUTBOX_DELETE b as_actor self)
      else if ACTIVITY_TYPE self = UPDATE then (Inr (), notify OUTBOX_UPDATE b as_actor self)
      else if ACTIVITY_TYPE self = CREATE then (Inr (), notify OUTBOX_CREATE b as_actor self)
      else (Inl NotImplementedError, b))"

text \<open>
  \<open>to_dict()\<close> copies \<open>_data\<close> one level deep: the inline object of the copy is the
  very dictionary \<open>_data\<close> holds, so what \<open>clean_activity\<close> deletes from it is gone
  from the activity as well.
\<close>

definition alias_object :: "activity \<Rightarrow> dict \<Rightarrow> activity" where
  "alias_object self activity =
     (case dget (data self) ''object'' of
        Some (JObj od) \<Rightarrow>
          (case dget activity ''object'' of
             Some v \<Rightarrow> self\<lparr>data := dset (data self) ''object'' v\<rparr>
           | None \<Rightarrow> self)
      | _ \<Rightarrow> self)"

text \<open>
  The delivery loop: one call of \<open>post_to_remote_inbox\<close> per recipient, each with the
  same payload.  \<open>json.dumps\<close> is taken as the identity on the decoded value.
\<close>

fun deliver :: "backend \<Rightarrow> activity \<Rightarrow> json \<Rightarrow> json list \<Rightarrow> (error + unit) \<times> backend" where
  "deliver b self payload [] = (Inr (), b)"
| "deliver b self payload (recp # rest) =
     (case get_actor (Some b) self of
        Inl e \<Rightarrow> (Inl e, b)
      | Inr actor \<Rightarrow> deliver (post_to_remote_inbox b actor payload recp) self payload rest)"

text \<open>
  \<open>post_to_outbox\<close> from \<open>outbox_new\<close> on (lines 446 to 462): persist, resolve the
  recipients, serialize and clean, run the hook, deliver.
\<close>

definition post_to_outbox_persist ::
  "backend \<Rightarrow> activity \<Rightarrow> string \<Rightarrow> (error + unit) \<times> backend option \<times> activity" where
  "post_to_outbox_persist b1 self1 obj_id =
     (case get_actor (Some b1) self1 of
        Inl e \<Rightarrow> (Inl e, Some b1, self1)
      | Inr actor \<Rightarrow>
          (case recipients (Some (outbox_new b1 actor self1)) self1 of
             Inl e \<Rightarrow> (Inl e, Some (outbox_new b1 actor self1), self1)
           | Inr recips \<Rightarrow>
               (case to_dict self1 False False of
                  Inl e \<Rightarrow> (Inl e, Some (outbox_new b1 actor self1), self1)
                | Inr d \<Rightarrow>
                    (case clean_activity d of
                       Inl e \<Rightarrow> (Inl e, Some (outbox_new b1 actor self1), self1)
                     | Inr activity \<Rightarrow>
                         (case get_actor (Some (outbox_new b1 actor self1))
                                 (alias_object self1 activity) of
                            Inl e \<Rightarrow>
                              (Inl e, Some (outbox_new b1 actor self1),
                               alias_object self1 activity)
                          | Inr as_actor \<Rightarrow>
                              (case u_post_to_outbox (outbox_new b1 actor self1)
                                      (alias_object self1 activity) as_actor obj_id
                                      activity recips of
                                 (Inl e, b3) \<Rightarrow>
                                   if e = NotImplementedError then
                                     (case deliver b3 (alias_object self1 activity)
                                             (JObj activity) recips of
                                        (r, b4) \<Rightarrow>
                                          (r, Some b4, alias_object self1 activity))
                                   else (Inl e, Some b3, alias_object self1 activity)
                               | (Inr u, b3) \<Rightarrow>
                                   (case deliver b3 (alias_object self1 activity)
                                           (JObj activity) recips of
                                      (r, b4) \<Rightarrow>
                                        (r, Some b4, alias_object self1 activity))))))))"

text \<open>
  \<open>post_to_outbox\<close>.  The result is the outcome, the backend and the activity as the
  call leaves them, also when it raises.
\<close>

definition post_to_outbox ::
  "backend option \<Rightarrow> activity \<Rightarrow> (error + unit) \<times> backend option \<times> activity" where
  "post_to_outbox B self =
     (case B of
        None \<Rightarrow> (Inl UninitializedBackendError, None, self)
      | Some b \<Rightarrow>
          (case random_object_id b of
             (obj_id, b1) \<Rightarrow>
               (case outbox_set_id self (activity_url b1 obj_id) obj_id of
                  (Inl e, self1) \<Rightarrow> (Inl e, Some b1, self1)
                | (Inr u, self1) \<Rightarrow>
                    (case u_pre_post_to_outbox b1 self1 of
                       Inl e \<Rightarrow>
                         if e = NotImplementedError then post_to_outbox_persist b1 self1 obj_id
                         else (Inl e, Some b1, self1)
                     | Inr u \<Rightarrow> post_to_outbox_persist b1 self1 obj_id))))"

section \<open>The inbox pipeline\<close>

text \<open>
  \<open>_pre_process_from_inbox\<close>: \<open>Accept\<close> passes; \<open>Undo\<close> and \<open>Update\<close> compare the
  actor with the actor of the object, \<open>Delete\<close> with the actor of the object behind
  the tombstone; they raise \<open>BadActivityError\<close> when the two ids differ.
\<close>

definition same_actor :: "backend \<Rightarrow> activity \<Rightarrow> pyobj \<Rightarrow> error + unit" where
  "same_actor b self p =
     (case get_actor (Some b) self of
        Inl e \<Rightarrow> Inl e
      | Inr actor \<Rightarrow>
          (case as_activity p of
             Inl e \<Rightarrow> Inl e
           | Inr obj \<Rightarrow>
               (case get_actor (Some b) obj of
                  Inl e \<Rightarrow> Inl e
                | Inr obj_actor \<Rightarrow>
                    if \<not> py_eq (getattr actor ''id'') (getattr obj_actor ''id'')
                    then Inl BadActivityError
                    else Inr ())))"

definition u_pre_process_from_inbox :: "backend \<Rightarrow> activity \<Rightarrow> activity \<Rightarrow> error + unit" where
  "u_pre_process_from_inbox b self as_actor =
     (if ACTIVITY_TYPE self = ACCEPT then Inr ()
      else if ACTIVITY_TYPE self = UNDO \<or> ACTIVITY_TYPE self = UPDATE then
        (case get_object (Some b) self of
           Inl e \<Rightarrow> Inl e
         | Inr p \<Rightarrow> same_actor b self p)
      else if ACTIVITY_TYPE self = DELETE then
        (case u_get_actual_object (Some b) self of
           Inl e \<Rightarrow> Inl e
         | Inr obj \<Rightarrow> same_actor b self (Instance obj))
      else Inl NotImplementedError)"

text \<open>\<open>_undo_inbox\<close> of \<open>Follow\<close>, \<open>Like\<close> and \<open>Announce\<close>.\<close>

definition u_undo_inbox :: "backend \<Rightarrow> activity \<Rightarrow> activity \<Rightarrow> (error + unit) \<times> backend" where
  "u_undo_inbox b self as_actor =
     (if ACTIVITY_TYPE self = FOLLOW then (Inr (), notify UNDO_NEW_FOLLOWER b as_actor self)
      else if ACTIVITY_TYPE self = LIKE then (Inr (), notify INBOX_UNDO_LIKE b as_actor self)
      else if ACTIVITY_TYPE self = ANNOUNCE
      then (Inr (), notify INBOX_UNDO_ANNOUNCE b as_actor self)
      else (Inl NotImplementedError, b))"

text \<open>
  \<open>Follow.build_accept\<close>:
  \<open>Accept(actor=self.get_object().id, object=self.to_dict(embed=True))\<close>.
\<close>

definition build_accept :: "backend option \<Rightarrow> activity \<Rightarrow> error + activity" where
  "build_accept B self =
     (case object_id B self of
        Inl e \<Rightarrow> Inl e
      | Inr i \<Rightarrow>
          (case to_dict self True False of
             Inl e \<Rightarrow> Inl e
           | Inr d \<Rightarrow> init B ACCEPT [(''actor'', i), (''object'', JObj d)]))"

text \<open>\<open>Follow._process_from_inbox\<close>: build the \<open>Accept\<close>, post it, record the follower.\<close>

definition Follow_process_from_inbox ::
  "backend \<Rightarrow> activity \<Rightarrow> activity \<Rightarrow> (error + unit) \<times> backend" where
  "Follow_process_from_inbox b self as_actor =
     (case build_accept (Some b) self of
        Inl e \<Rightarrow> (Inl e, b)
      | Inr accept \<Rightarrow>
          (case post_to_outbox (Some b) accept of
             (r, B', accept') \<Rightarrow>
               (case B' of
                  None \<Rightarrow> (Inl UninitializedBackendError, b)
                | Some b' \<Rightarrow>
                    (case r of
                       Inl e \<Rightarrow> (Inl e, b')
                     | Inr u \<Rightarrow> (Inr (), notify NEW_FOLLOWER b' as_actor self)))))"

text \<open>
  \<open>Announce._process_from_inbox\<close>: an object that is a string not starting with
  \<open>http\<close> is logged and skipped (at this point \<open>inbox_new\<close> has run).
\<close>

definition Announce_process_from_inbox ::
  "backend \<Rightarrow> activity \<Rightarrow> activity \<Rightarrow> (error + unit) \<times> backend" where
  "Announce_process_from_inbox b self as_actor =
     (case dget (data self) ''object'' of
        None \<Rightarrow> (Inl KeyError, b)
      | Some ob \<Rightarrow>
          (case ob of
             JStr st \<Rightarrow>
               if take 4 st \<noteq> ''http'' then (Inr (), b)
               else (Inr (), notify INBOX_ANNOUNCE b as_actor self)
           | _ \<Rightarrow> (Inr (), notify INBOX_ANNOUNCE b as_actor self)))"

definition u_process_from_inbox ::
  "backend \<Rightarrow> activity \<Rightarrow> activity \<Rightarrow> (error + unit) \<times> backend" where
  "u_process_from_inbox b self as_actor =
     (if ACTIVITY_TYPE self = FOLLOW then Follow_process_from_inbox b self as_actor
      else if ACTIVITY_TYPE self = ACCEPT then
        (case get_object (Some b) self of
           Inl e \<Rightarrow> (Inl e, b)
         | Inr p \<Rightarrow>
             (case p of
                Instance ob \<Rightarrow>
                  if ACTIVITY_TYPE ob = FOLLOW
                  then (Inr (), notify NEW_FOLLOWING b as_actor ob)
                  else (Inr (), b)
              | Plain v \<Rightarrow> (Inr (), b)))
      else if ACTIVITY_TYPE self = UNDO then
        (case get_object (Some b) self of
           Inl e \<Rightarrow> (Inl e, b)
         | Inr p \<Rightarrow>
             (case as_activity p of
                Inl e \<Rightarrow> (Inl e, b)
              | Inr obj \<Rightarrow>
                  (case u_undo_inbox b obj as_actor of
                     (Inl e, b') \<Rightarrow>
                       if e = NotImplementedError then (Inr (), b') else (Inl e, b')
                   | (Inr u, b') \<Rightarrow> (Inr (), b'))))
      else if ACTIVITY_TYPE self = LIKE then (Inr (), notify INBOX_LIKE b as_actor self)
      else if ACTIVITY_TYPE self = ANNOUNCE then Announce_process_from_inbox b self as_actor
      else if ACTIVITY_TYPE self = DELETE then (Inr (), notify INBOX_DELETE b as_actor self)
      else if ACTIVITY_TYPE self = UPDATE then (Inr (), notify INBOX_UPDATE b as_actor self)
      else if ACTIVITY_TYPE self = CREATE then (Inr (), notify INBOX_CREATE b as_actor self)
      else (Inl NotImplementedError, b))"

text \<open>
  \<open>process_from_inbox\<close>: the outcome and the backend as the call leaves it.  The
  activity itself is not changed.
\<close>

definition process_from_inbox ::
  "backend option \<Rightarrow> activity \<Rightarrow> activity \<Rightarrow> (error + unit) \<times> backend option" where
  "process_from_inbox B self as_actor =
     (case B of
        None \<Rightarrow> (Inl UninitializedBackendError, None)
      | Some b \<Rightarrow>
          (case get_actor B self of
             Inl e \<Rightarrow> (Inl e, B)
           | Inr actor \<Rightarrow>
               if outbox_is_blocked b as_actor (getattr actor ''id'') then (Inr (), B)
               else if inbox_get_by_iri b as_actor (getattr self ''id'') \<noteq> None
               then (Inr (), B)
               else
                 (case (case u_pre_process_from_inbox b self as_actor of
                          Inl e \<Rightarrow> if e = NotImplementedError then Inr () else Inl e
                        | Inr u \<Rightarrow> Inr ()) of
                    Inl e \<Rightarrow> (Inl e, B)
                  | Inr u \<Rightarrow>
                      (case u_process_from_inbox (inbox_new b as_actor self) self as_actor of
                         (Inl e, b2) \<Rightarrow>
                           if e = NotImplementedError then (Inr (), Some b2)
                           else (Inl e, Some b2)
                       | (Inr u, b2) \<Rightarrow> (Inr (), Some b2)))))"

section \<open>Concrete runs\<close>

text \<open>The defining equations, for running the model on concrete inputs.\<close>

lemmas model_defs =
  py_in_def dget_def dget_default_def has_key_def dset_def ddel_def
  ActivityTypes_def ActivityType_of_def registered_def CTX_AS_def CTX_SECURITY_def AS_PUBLIC_def
  getattr_def as_activity_def fetch_iri_def parse_collection_def outbox_is_blocked_def
  inbox_get_by_iri_def inbox_new_def outbox_new_def is_from_outbox_def notify_def
  random_object_id_def activity_url_def post_to_remote_inbox_def
  is_str_def is_dict_def py_str_def u_to_list_def u_actor_id_def u_validate_person_def
  init_type_def init_id_def init_actor_def init_object_def context_terms_def
  normalize_context_def init_context_def init_fields_def init_finish_def Image_init_def
  Note_init_def object_setitem_def Create_init_published_def
  parse_activity.simps init.simps Create_init.simps get_object.simps get_actor.simps
  to_dict_def clean_field_def clean_activity_def Create_outbox_set_id_def u_outbox_set_id_def
  outbox_set_id_def u_get_actual_object_def object_id_def object_actor_id_def
  add_inbox_def add_endpoint_def recipients_def
  u_pre_post_to_outbox_def u_undo_outbox_def u_post_to_outbox_def alias_object_def
  post_to_outbox_persist_def post_to_outbox_def same_actor_def u_pre_process_from_inbox_def
  u_undo_inbox_def build_accept_def Follow_process_from_inbox_def
  Announce_process_from_inbox_def u_process_from_inbox_def process_from_inbox_def
  numeral_eq_Suc

text \<open>
  A small world: five actors (one with a shared inbox, one whose \<open>endpoints\<close>
  declare no shared inbox, two behind the same shared inbox) and an empty store.
\<close>

definition alice :: dict where
  "alice = [(''type'', JStr ''Person''), (''id'', JStr ''https://a.example/alice''),
            (''inbox'', JStr ''https://a.example/alice/inbox'')]"

definition bob :: dict where
  "bob = [(''type'', JStr ''Person''), (''id'', JStr ''https://b.example/bob''),
          (''inbox'', JStr ''https://b.example/bob/inbox''),
          (''endpoints'', JObj [(''sharedInbox'', JStr ''https://b.example/inbox'')])]"

definition carol :: dict where
  "carol = [(''type'', JStr ''Person''), (''id'', JStr ''https://c.example/carol''),
            (''inbox'', JStr ''https://c.example/carol/inbox''),
            (''endpoints'', JObj [(''oauthTokenEndpoint'', JStr ''https://c.example/token'')])]"

definition dave :: dict where
  "dave = [(''type'', JStr ''Person''), (''id'', JStr ''https://b.example/dave''),
           (''inbox'', JStr ''https://b.example/dave/inbox''),
           (''endpoints'', JObj [(''sharedInbox'', JStr ''https://b.example/inbox'')])]"

definition mallory :: dict where
  "mallory = [(''type'', JStr ''Person''), (''id'', JStr ''https://m.example/mallory''),
              (''inbox'', JStr ''https://m.example/mallory/inbox'')]"

definition world :: backend where
  "world =
     \<lparr>IRIS = [(''https://a.example/alice'', alice), (''https://b.example/bob'', bob),
              (''https://c.example/carol'', carol), (''https://b.example/dave'', dave),
              (''https://m.example/mallory'', mallory)],
      COLLECTION_ITEMS = (\<lambda>raw. Inl BackendFailure),
      BLOCKS = [],
      OWNED = (\<lambda>a. True),
      RANDOM_IDS = (\<lambda>n. replicate (Suc n) CHR ''x''),
      MINTED = 0,
      ACTIVITY_URL = (\<lambda>i. ''https://b.example/outbox/'' @ i),
      UTCNOW = ''2018-06-01T00:00:00Z'',
      REPR = (\<lambda>v. ''None''),
      RECURSION_LIMIT = 1000,
      INBOX = [], OUTBOX = [], EFFECTS = [], DELIVERED = []\<rparr>"

definition normal_context :: json where
  "normal_context =
     JList [JStr ''https://www.w3.org/ns/activitystreams'', JStr ''https://w3id.org/security/v1'',
            JObj [(''Hashtag'', JStr ''as:Hashtag''), (''sensitive'', JStr ''as:sensitive'')]]"

definition person :: "dict \<Rightarrow> activity" where
  "person d = \<lparr>ACTIVITY_TYPE = PERSON, data = d, ctx_set = False, obj_reset = False\<rparr>"

lemmas world_defs = alice_def bob_def carol_def dave_def mallory_def world_def normal_context_def person_def

section \<open>Serialization flags (C10)\<close>

lemma to_dict_plain: "to_dict self False False = Inr (data self)"
  by (simp add: to_dict_def Let_def split: json.splits)

lemma to_dict_embed: "to_dict self True False = Inr (ddel (ddel (data self) ''@context'') ''signature'')"
  by (simp add: to_dict_def Let_def split: json.splits)

lemma to_dict_object_id:
  assumes "dget (data self) ''object'' = Some (JObj od)" and "od \<noteq> []"
  shows "to_dict self False True =
           (case dget od ''id'' of
              None \<Rightarrow> Inl BadActivityError
            | Some i \<Rightarrow> Inr (dset (data self) ''object'' i))"
    and "to_dict self True True =
           (case dget od ''id'' of
              None \<Rightarrow> Inl BadActivityError
            | Some i \<Rightarrow> Inr (dset (ddel (ddel (data self) ''@context'') ''signature'') ''object'' i))"
  using assms
  by (simp_all add: to_dict_def Let_def dget_default_def is_dict_def dget_ddel
      dget_def [symmetric])

lemma to_dict_empty_object:
  assumes "dget (data self) ''object'' = Some (JObj [])"
  shows "to_dict self False True = Inr (data self)"
    and "to_dict self True True = Inr (ddel (ddel (data self) ''@context'') ''signature'')"
  using assms
  by (simp_all add: to_dict_def Let_def dget_default_def is_dict_def dget_ddel
      dget_def [symmetric])

definition like_note :: activity where
  "like_note =
     \<lparr>ACTIVITY_TYPE = LIKE,
      data = [(''type'', JStr ''Like''), (''id'', JStr ''https://a.example/l1''),
              (''actor'', JStr ''https://a.example/alice''),
              (''object'', JObj [(''type'', JStr ''Note''), (''id'', JStr ''https://c.example/n1''),
                                  (''attributedTo'', JStr ''https://c.example/carol'')]),
              (''@context'', normal_context)],
      ctx_set = False, obj_reset = False\<rparr>"

lemma to_dict_no_inline_object:
  assumes "\<forall>od. dget (data self) ''object'' = Some (JObj od) \<longrightarrow> od = []"
  shows "to_dict self False True = Inr (data self)"
    and "to_dict self True True = Inr (ddel (ddel (data self) ''@context'') ''signature'')"
  using assms
  by (auto simp: to_dict_def Let_def dget_default_def is_dict_def dget_ddel
      dget_def [symmetric] split: option.splits json.splits)

definition like_by_iri :: activity where
  "like_by_iri =
     \<lparr>ACTIVITY_TYPE = LIKE,
      data = [(''type'', JStr ''Like''), (''id'', JStr ''https://a.example/l2''),
              (''actor'', JStr ''https://a.example/alice''),
              (''object'', JStr ''https://c.example/n1''),
              (''@context'', normal_context)],
      ctx_set = False, obj_reset = False\<rparr>"

definition person_empty_object :: activity where
  "person_empty_object =
     \<lparr>ACTIVITY_TYPE = PERSON,
      data = [(''type'', JStr ''Person''), (''@context'', normal_context), (''object'', JObj [])],
      ctx_set = False, obj_reset = False\<rparr>"

text \<open>
  C10, as amended.  \<open>to_dict\<close> with both flags off returns the stored fields; with
  \<open>embed\<close> it returns them without \<open>@context\<close> and \<open>signature\<close>; with
  \<open>embed_object_id_only\<close> a non-empty inline object is replaced by its \<open>id\<close>, and
  \<open>BadActivityError\<close> is raised when it has none; an empty inline object is falsy and
  stays as it is, without an error; and an object that is not an inline mapping (a
  reference, or none at all) leaves \<open>embed_object_id_only\<close> without effect, so that
  \<open>embed\<close> alone decides what is returned.
\<close>

theorem to_dict_flags:
  "to_dict self False False = Inr (data self)
   \<and> to_dict self True False = Inr (ddel (ddel (data self) ''@context'') ''signature'')
   \<and> (dget (data self) ''object'' = Some (JObj od) \<and> od \<noteq> [] \<longrightarrow>
        to_dict self False True =
          (case dget od ''id'' of
             None \<Rightarrow> Inl BadActivityError
           | Some i \<Rightarrow> Inr (dset (data self) ''object'' i))
        \<and> to_dict self True True =
          (case dget od ''id'' of
             None \<Rightarrow> Inl BadActivityError
           | Some i \<Rightarrow>
               Inr (dset (ddel (ddel (data self) ''@context'') ''signature'') ''object'' i)))
   \<and> (dget (data self) ''object'' = Some (JObj []) \<longrightarrow>
        to_dict self False True = Inr (data self)
        \<and> to_dict self True True = Inr (ddel (ddel (data self) ''@context'') ''signature''))
   \<and> ((\<forall>d. dget (data self) ''object'' \<noteq> Some (JObj d)) \<longrightarrow>
        to_dict self False True = Inr (data self)
        \<and> to_dict self True True = Inr (ddel (ddel (data self) ''@context'') ''signature''))"
  using to_dict_plain [of self] to_dict_embed [of self] to_dict_object_id [of self od]
    to_dict_empty_object [of self] to_dict_no_inline_object [of self]
  by simp

text \<open>
  An instance with an inline note, one with an empty inline object, and one whose object
  is a reference.
\<close>

theorem to_dict_flags_witness:
  "dget (data like_note) ''object''
     = Some (JObj [(''type'', JStr ''Note''), (''id'', JStr ''https://c.example/n1''),
                   (''attributedTo'', JStr ''https://c.example/carol'')])
   \<and> to_dict like_note True True =
       Inr [(''type'', JStr ''Like''), (''id'', JStr ''https://a.example/l1''),
            (''actor'', JStr ''https://a.example/alice''),
            (''object'', JStr ''https://c.example/n1'')]
   \<and> dget (data person_empty_object) ''object'' = Some (JObj [])
   \<and> to_dict person_empty_object True True = Inr [(''type'', JStr ''Person''), (''object'', JObj [])]
   \<and> (\<forall>d. dget (data like_by_iri) ''object'' \<noteq> Some (JObj d))
   \<and> to_dict like_by_iri False True = Inr (data like_by_iri)
   \<and> to_dict like_by_iri True True =
       Inr [(''type'', JStr ''Like''), (''id'', JStr ''https://a.example/l2''),
            (''actor'', JStr ''https://a.example/alice''),
            (''object'', JStr ''https://c.example/n1'')]"
  using to_dict_flags [of like_note "[(''type'', JStr ''Note''), (''id'', JStr ''https://c.example/n1''),
                   (''attributedTo'', JStr ''https://c.example/carol'')]"]
    to_dict_flags [of person_empty_object "[]"]
    to_dict_flags [of like_by_iri "[]"]
  by (simp add: like_note_def person_empty_object_def like_by_iri_def normal_context_def
      dget_def dset_def ddel_def)

text \<open>
  The unamended statement fails for an inline object without keys: \<open>Person(object={})\<close> is
  constructed, and \<open>to_dict(embed_object_id_only=True)\<close> neither replaces the object
  nor raises.
\<close>

theorem to_dict_empty_object_counterexample:
  "init None PERSON [(''object'', JObj [])] = Inr person_empty_object
   \<and> dget (data person_empty_object) ''object'' = Some (JObj [])
   \<and> dget [] ''id'' = None
   \<and> to_dict person_empty_object False True = Inr (data person_empty_object)"
  by (simp add: model_defs person_empty_object_def normal_context_def)

section \<open>Context normalization (C3)\<close>

lemma py_in_JStr: "py_in (JStr s) xs = (JStr s \<in> set xs)"
  by (induction xs) (auto simp: py_in_def)

lemma dget_dupdate_absent: "dget e k = None \<Longrightarrow> dget (dupdate d e) k = dget d k"
proof (induction e arbitrary: d)
  case Nil
  then show ?case by simp
next
  case (Cons kv e)
  then have "fst kv \<noteq> k" and "dget e k = None"
    by (auto simp: dget_def split: if_splits)
  with Cons.IH [of "dset d (fst kv) (snd kv)"] show ?case
    by (simp add: dget_dset)
qed

lemma dget_filter_absent: "dget e k = None \<Longrightarrow> dget (filter P e) k = None"
  by (induction e) (auto simp: dget_def split: if_splits)

lemma init_finish_absent:
  "dget kw k = None \<Longrightarrow> dget (data (init_finish self kw)) k = dget (data self) k"
  by (simp add: init_finish_def dget_dupdate_absent dget_filter_absent)

text \<open>The \<open>@context\<close> argument of the constructor, or the default it takes.\<close>

definition given_context :: "dict \<Rightarrow> json" where
  "given_context kwargs = (case dget kwargs ''@context'' of None \<Rightarrow> JStr CTX_AS | Some c \<Rightarrow> c)"

lemma init_type_context:
  "init_type t kwargs = Inr k1 \<Longrightarrow> dget k1 ''@context'' = dget kwargs ''@context''"
  by (auto simp: init_type_def dget_ddel split: if_splits)

lemma init_id_context:
  "init_id d kwargs = (d2, k2) \<Longrightarrow> dget k2 ''@context'' = dget kwargs ''@context''"
  by (auto simp: init_id_def dget_ddel split: option.splits)

lemma init_actor_context:
  "init_actor B t d kwargs = Inr (d3, k3) \<Longrightarrow> dget k3 ''@context'' = dget kwargs ''@context''"
  by (auto simp: init_actor_def dget_ddel split: if_splits sum.splits)

lemma init_object_context:
  "init_object t d kwargs = Inr (d4, k4) \<Longrightarrow> dget k4 ''@context'' = dget kwargs ''@context''"
  by (auto simp: init_object_def dget_ddel split: if_splits sum.splits option.splits json.splits)

lemma init_context_context:
  "init_context d kwargs = Inr (d5, k5) \<Longrightarrow>
   dget k5 ''@context'' = None
   \<and> (\<exists>l. normalize_context (given_context kwargs) = Inr l
          \<and> dget d5 ''@context'' = Some (JList l))"
  by (auto simp: init_context_def given_context_def dget_ddel dget_dset split: sum.splits)

lemma init_fields_context:
  assumes "init_fields B t kwargs = Inr (self, kw)"
  shows "dget kw ''@context'' = None
         \<and> (\<exists>l. normalize_context (given_context kwargs) = Inr l
                \<and> dget (data self) ''@context'' = Some (JList l))"
proof -
  from assms obtain k1 d2 k2 d3 k3 d4 k4 d5 where
    s: "init_type t kwargs = Inr k1"
       "init_id [(''type'', JStr (type_value t))] k1 = (d2, k2)"
       "init_actor B t d2 k2 = Inr (d3, k3)"
       "init_object t d3 k3 = Inr (d4, k4)"
       "init_context d4 k4 = Inr (d5, kw)"
       "data self = d5"
    by (auto simp: init_fields_def split: sum.splits prod.splits)
  have "given_context k4 = given_context kwargs"
    using init_object_context [OF s(4)] init_actor_context [OF s(3)] init_id_context [OF s(2)]
      init_type_context [OF s(1)]
    by (simp add: given_context_def)
  with init_context_context [OF s(5)] s(6) show ?thesis by simp
qed

lemma object_setitem_other:
  "object_setitem self k v = Inr self' \<Longrightarrow> key \<noteq> ''object'' \<Longrightarrow>
   dget (data self') key = dget (data self) key"
  by (auto simp: object_setitem_def dget_dset split: option.splits json.splits)

lemma Create_init_published_context:
  "Create_init_published now obj self = Inr self' \<Longrightarrow>
   dget (data self') ''@context'' = dget (data self) ''@context''"
  by (auto simp: Create_init_published_def dget_dset dest!: object_setitem_other [where key = "''@context''"]
      split: if_splits)

lemma Create_init_context:
  "Create_init B self kw = Inr self' \<Longrightarrow>
   dget (data self') ''@context'' = dget (data self) ''@context''"
  by (auto simp: Create_init.simps
      dest!: Create_init_published_context object_setitem_other [where key = "''@context''"]
      split: option.splits sum.splits if_splits)

lemma init_hook_context:
  "(if t = IMAGE then Image_init self kw
    else if t = NOTE then Note_init self kw
    else if t = CREATE then Create_init B self kw
    else Inl NotImplementedError) = Inr self' \<Longrightarrow>
   dget (data self') ''@context'' = dget (data self) ''@context''"
  by (auto simp: Image_init_def Note_init_def dget_dset dest: Create_init_context
      split: if_splits option.splits)

lemma init_context:
  assumes "init B t kwargs = Inr a"
  shows "\<exists>l. normalize_context (given_context kwargs) = Inr l
             \<and> dget (data a) ''@context'' = Some (JList l)"
proof -
  from assms obtain self kw where f: "init_fields B t kwargs = Inr (self, kw)"
    by (auto simp: init.simps split: sum.splits)
  let ?hook = "if t = IMAGE then Image_init self kw
               else if t = NOTE then Note_init self kw
               else if t = CREATE then Create_init B self kw
               else Inl NotImplementedError"
  from assms f have a: "(\<exists>self'. ?hook = Inr self' \<and> a = init_finish self' kw)
                        \<or> a = init_finish self kw"
    by (simp add: init.simps split: sum.splits if_splits)
  have "dget (data a) ''@context'' = dget (data self) ''@context''"
    using a init_fields_context [OF f] init_hook_context [of t self kw B]
    by (auto simp: init_finish_absent)
  with init_fields_context [OF f] show ?thesis by simp
qed

lemma count_list_append: "count_list (xs @ ys) x = count_list xs x + count_list ys x"
  by (induction xs) auto

lemma count_list_member: "x \<in> set xs \<Longrightarrow> Suc 0 \<le> count_list xs x"
  by (induction xs) auto

lemma dget_context_terms:
  "dget (dupdate m context_terms) ''Hashtag'' = Some (JStr ''as:Hashtag'')
   \<and> dget (dupdate m context_terms) ''sensitive'' = Some (JStr ''as:sensitive'')"
  by (simp add: context_terms_def dget_dset)

lemma normalize_context_shape:
  assumes "normalize_context c = Inr l"
  shows "\<exists>front m. l = front @ [JObj m]
           \<and> dget m ''Hashtag'' = Some (JStr ''as:Hashtag'')
           \<and> dget m ''sensitive'' = Some (JStr ''as:sensitive'')
           \<and> count_list l (JStr CTX_SECURITY)
               = max 1 (count_list (u_to_list c) (JStr CTX_SECURITY))
           \<and> (JStr CTX_AS \<in> set l) = (JStr CTX_AS \<in> set (u_to_list c))"
proof -
  define xs where "xs = u_to_list c"
  define l2 where
    "l2 = (if JStr CTX_SECURITY \<notin> set xs then xs @ [JStr CTX_SECURITY] else xs)"
  have cnt: "count_list l2 (JStr CTX_SECURITY) = max 1 (count_list xs (JStr CTX_SECURITY))"
    using count_list_member [of "JStr CTX_SECURITY" xs]
    by (auto simp: l2_def count_list_append max_def)
  have mem: "(JStr CTX_AS \<in> set l2) = (JStr CTX_AS \<in> set xs)"
    by (auto simp: l2_def CTX_AS_def CTX_SECURITY_def)
  have "normalize_context c = (case rev l2 of
           [] \<Rightarrow> Inl IndexError
         | x # front \<Rightarrow>
             (case x of
                JObj m \<Rightarrow> Inr (rev front @ [JObj (dupdate m context_terms)])
              | _ \<Rightarrow> Inr (l2 @ [JObj context_terms])))"
    by (simp only: normalize_context_def Let_def l2_def xs_def u_to_list_def py_in_JStr)
  with assms have n: "(case rev l2 of
           [] \<Rightarrow> Inl IndexError
         | x # front \<Rightarrow>
             (case x of
                JObj m \<Rightarrow> Inr (rev front @ [JObj (dupdate m context_terms)])
              | _ \<Rightarrow> Inr (l2 @ [JObj context_terms]))) = Inr l"
    by simp
  then obtain x front where r: "rev l2 = x # front"
    by (cases "rev l2") auto
  then have l2: "l2 = rev front @ [x]"
    by (metis rev.simps(2) rev_rev_ident)
  show ?thesis
  proof (cases "\<exists>m. x = JObj m")
    case True
    then obtain m where x: "x = JObj m" by blast
    with n r have "l = rev front @ [JObj (dupdate m context_terms)]" by simp
    with cnt mem l2 x show ?thesis
      using dget_context_terms [of m]
      by (auto simp: xs_def count_list_append CTX_AS_def)
  next
    case False
    with n r have "l = l2 @ [JObj context_terms]"
      by (cases x) auto
    with cnt mem show ?thesis
      using dget_context_terms [of "[]"]
      by (auto simp: xs_def count_list_append context_terms_def dget_def)
  qed
qed

text \<open>
  C3, as amended.  For every activity the constructor returns, \<open>@context\<close> is a list
  that ends with a mapping carrying \<open>Hashtag\<close> and \<open>sensitive\<close>; the security
  context occurs in it once, or as often as the caller's context had it if that was
  more than once; the base context is in it exactly when the caller gave no context or
  gave one that has it.
\<close>

theorem context_normalized:
  assumes "init B t kwargs = Inr a"
  shows "\<exists>front m.
           dget (data a) ''@context'' = Some (JList (front @ [JObj m]))
           \<and> dget m ''Hashtag'' = Some (JStr ''as:Hashtag'')
           \<and> dget m ''sensitive'' = Some (JStr ''as:sensitive'')
           \<and> count_list (front @ [JObj m]) (JStr CTX_SECURITY)
               = max 1 (count_list (u_to_list (given_context kwargs)) (JStr CTX_SECURITY))
           \<and> (JStr CTX_AS \<in> set (front @ [JObj m]))
               = (JStr CTX_AS \<in> set (u_to_list (given_context kwargs)))"
proof -
  from init_context [OF assms] obtain l where
    l: "normalize_context (given_context kwargs) = Inr l"
       "dget (data a) ''@context'' = Some (JList l)"
    by blast
  from normalize_context_shape [OF l(1)] l(2) show ?thesis by auto
qed

text \<open>A person built without a context gets the three default entries.\<close>

definition person_plain :: activity where
  "person_plain =
     \<lparr>ACTIVITY_TYPE = PERSON,
      data = [(''type'', JStr ''Person''), (''id'', JStr ''https://a.example/alice''),
              (''@context'', normal_context)],
      ctx_set = False, obj_reset = False\<rparr>"

theorem context_normalized_witness:
  "init None PERSON [(''id'', JStr ''https://a.example/alice'')] = Inr person_plain
   \<and> (\<exists>front m.
          dget (data person_plain) ''@context'' = Some (JList (front @ [JObj m]))
          \<and> dget m ''Hashtag'' = Some (JStr ''as:Hashtag'')
          \<and> dget m ''sensitive'' = Some (JStr ''as:sensitive'')
          \<and> count_list (front @ [JObj m]) (JStr CTX_SECURITY) = 1
          \<and> JStr CTX_AS \<in> set (front @ [JObj m]))"
proof -
  have i: "init None PERSON [(''id'', JStr ''https://a.example/alice'')] = Inr person_plain"
    by (simp add: model_defs person_plain_def normal_context_def)
  from context_normalized [OF i] show ?thesis
    using i by (simp add: given_context_def u_to_list_def dget_def CTX_AS_def CTX_SECURITY_def)
qed

text \<open>
  The unamended statement fails: a caller's context replaces the base context, and a
  security context given twice stays twice.
\<close>

definition person_custom_context :: activity where
  "person_custom_context =
     \<lparr>ACTIVITY_TYPE = PERSON,
      data = [(''type'', JStr ''Person''),
              (''@context'',
               JList [JStr ''https://example.com/ctx'', JStr ''https://w3id.org/security/v1'',
                      JObj [(''Hashtag'', JStr ''as:Hashtag''),
                            (''sensitive'', JStr ''as:sensitive'')]])],
      ctx_set = False, obj_reset = False\<rparr>"

definition person_double_security :: activity where
  "person_double_security =
     \<lparr>ACTIVITY_TYPE = PERSON,
      data = [(''type'', JStr ''Person''),
              (''@context'',
               JList [JStr ''https://w3id.org/security/v1'', JStr ''https://w3id.org/security/v1'',
                      JObj [(''Hashtag'', JStr ''as:Hashtag''),
                            (''sensitive'', JStr ''as:sensitive'')]])],
      ctx_set = False, obj_reset = False\<rparr>"

theorem context_base_counterexample:
  "init None PERSON [(''@context'', JStr ''https://example.com/ctx'')] = Inr person_custom_context
   \<and> JStr CTX_AS \<notin> set [JStr ''https://example.com/ctx'', JStr ''https://w3id.org/security/v1'',
                             JObj [(''Hashtag'', JStr ''as:Hashtag''),
                                   (''sensitive'', JStr ''as:sensitive'')]]
   \<and> init None PERSON
         [(''@context'', JList [JStr ''https://w3id.org/security/v1'',
                                 JStr ''https://w3id.org/security/v1''])]
       = Inr person_double_security
   \<and> count_list [JStr ''https://w3id.org/security/v1'', JStr ''https://w3id.org/security/v1'',
                   JObj [(''Hashtag'', JStr ''as:Hashtag''),
                         (''sensitive'', JStr ''as:sensitive'')]] (JStr CTX_SECURITY) = 2"
  by (simp add: model_defs person_custom_context_def person_double_security_def)

section \<open>Identifier assignment (C6)\<close>

lemma object_setitem_id:
  "object_setitem self k v = Inr self' \<Longrightarrow> dget (data self') ''id'' = dget (data self) ''id''"
  by (rule object_setitem_other) simp_all

lemma outbox_set_id_id:
  "dget (data (snd (outbox_set_id self uri obj_id))) ''id'' = Some (JStr uri)"
  by (auto simp: outbox_set_id_def u_outbox_set_id_def Create_outbox_set_id_def dget_dset
      dest!: object_setitem_id split: sum.splits prod.splits if_splits)

lemma alias_object_id: "dget (data (alias_object s a)) ''id'' = dget (data s) ''id''"
  by (simp add: alias_object_def dget_dset split: option.splits json.splits)

lemma post_to_outbox_persist_id:
  "dget (data (snd (snd (post_to_outbox_persist b s i)))) ''id'' = dget (data s) ''id''"
  by (simp add: post_to_outbox_persist_def alias_object_id
      split: sum.splits prod.splits if_splits)

lemma post_to_outbox_id:
  "dget (data (snd (snd (post_to_outbox (Some b) self)))) ''id''
     = Some (JStr (ACTIVITY_URL b (RANDOM_IDS b (MINTED b))))"
proof -
  let ?uri = "ACTIVITY_URL b (RANDOM_IDS b (MINTED b))"
  let ?r = "outbox_set_id self ?uri (RANDOM_IDS b (MINTED b))"
  have "dget (data (snd ?r)) ''id'' = Some (JStr ?uri)"
    by (rule outbox_set_id_id)
  then show ?thesis
    by (cases ?r)
       (simp add: post_to_outbox_def random_object_id_def activity_url_def
          post_to_outbox_persist_id split: sum.splits)
qed

text \<open>Lines 167 to 169: the constructor stores the \<open>id\<close> it is given, and nothing else touches it.\<close>

lemma init_type_id: "init_type t kwargs = Inr k1 \<Longrightarrow> dget k1 ''id'' = dget kwargs ''id''"
  by (auto simp: init_type_def dget_ddel split: if_splits)

lemma init_id_id:
  "init_id d kwargs = (d2, k2) \<Longrightarrow> dget d ''id'' = None \<Longrightarrow>
   dget d2 ''id'' = dget kwargs ''id'' \<and> dget k2 ''id'' = None"
  by (auto simp: init_id_def dget_ddel dget_dset split: option.splits)

lemma init_actor_id:
  "init_actor B t d kwargs = Inr (d3, k3) \<Longrightarrow>
   dget d3 ''id'' = dget d ''id'' \<and> dget k3 ''id'' = dget kwargs ''id''"
  by (auto simp: init_actor_def dget_ddel dget_dset split: if_splits sum.splits)

lemma init_object_id:
  "init_object t d kwargs = Inr (d4, k4) \<Longrightarrow>
   dget d4 ''id'' = dget d ''id'' \<and> dget k4 ''id'' = dget kwargs ''id''"
  by (auto simp: init_object_def dget_ddel dget_dset
      split: if_splits sum.splits option.splits json.splits)

lemma init_context_id:
  "init_context d kwargs = Inr (d5, k5) \<Longrightarrow>
   dget d5 ''id'' = dget d ''id'' \<and> dget k5 ''id'' = dget kwargs ''id''"
  by (auto simp: init_context_def dget_ddel dget_dset split: sum.splits)

lemma init_fields_id:
  assumes "init_fields B t kwargs = Inr (self, kw)"
  shows "dget kw ''id'' = None \<and> dget (data self) ''id'' = dget kwargs ''id''"
proof -
  from assms obtain k1 d2 k2 d3 k3 d4 k4 d5 where
    s: "init_type t kwargs = Inr k1"
       "init_id [(''type'', JStr (type_value t))] k1 = (d2, k2)"
       "init_actor B t d2 k2 = Inr (d3, k3)"
       "init_object t d3 k3 = Inr (d4, k4)"
       "init_context d4 k4 = Inr (d5, kw)"
       "data self = d5"
    by (auto simp: init_fields_def split: sum.splits prod.splits)
  have "dget [(''type'', JStr (type_value t))] ''id'' = None"
    by (simp add: dget_def)
  from init_id_id [OF s(2) this] init_type_id [OF s(1)] init_actor_id [OF s(3)]
    init_object_id [OF s(4)] init_context_id [OF s(5)] s(6)
  show ?thesis by simp
qed

lemma Create_init_published_id:
  "Create_init_published now obj self = Inr self' \<Longrightarrow>
   dget (data self') ''id'' = dget (data self) ''id''"
  by (auto simp: Create_init_published_def dget_dset dest!: object_setitem_id
      split: if_splits)

lemma Create_init_id:
  "Create_init B self kw = Inr self' \<Longrightarrow> dget (data self') ''id'' = dget (data self) ''id''"
  by (auto simp: Create_init.simps
      dest!: Create_init_published_id object_setitem_id
      split: option.splits sum.splits if_splits)

lemma init_hook_id:
  "(if t = IMAGE then Image_init self kw
    else if t = NOTE then Note_init self kw
    else if t = CREATE then Create_init B self kw
    else Inl NotImplementedError) = Inr self' \<Longrightarrow>
   dget (data self') ''id'' = dget (data self) ''id''"
  by (auto simp: Image_init_def Note_init_def dget_dset dest: Create_init_id
      split: if_splits option.splits)

lemma init_keeps_id:
  assumes "init B t kwargs = Inr a"
  shows "dget (data a) ''id'' = dget kwargs ''id''"
proof -
  from assms obtain self kw where f: "init_fields B t kwargs = Inr (self, kw)"
    by (auto simp: init.simps split: sum.splits)
  let ?hook = "if t = IMAGE then Image_init self kw
               else if t = NOTE then Note_init self kw
               else if t = CREATE then Create_init B self kw
               else Inl NotImplementedError"
  from assms f have a: "(\<exists>self'. ?hook = Inr self' \<and> a = init_finish self' kw)
                        \<or> a = init_finish self kw"
    by (simp add: init.simps split: sum.splits if_splits)
  have "dget (data a) ''id'' = dget (data self) ''id''"
    using a init_fields_id [OF f] init_hook_id [of t self kw B]
    by (auto simp: init_finish_absent)
  with init_fields_id [OF f] show ?thesis by simp
qed

lemma parse_activity_keeps_id:
  "parse_activity B d expected = Inr a \<Longrightarrow> dget (data a) ''id'' = dget d ''id''"
  by (auto simp: parse_activity.simps init_keeps_id split: option.splits sum.splits if_splits)

definition follow_received :: activity where
  "follow_received =
     \<lparr>ACTIVITY_TYPE = FOLLOW,
      data = [(''type'', JStr ''Follow''), (''id'', JStr ''https://a.example/f1''),
              (''actor'', JStr ''https://a.example/alice''),
              (''object'', JStr ''https://b.example/bob''),
              (''@context'', normal_context)],
      ctx_set = False, obj_reset = False\<rparr>"

text \<open>
  C6, as amended.  A successfully constructed or parsed activity has the \<open>id\<close> its
  payload carries (and none when the payload has none).  \<open>outbox_set_id\<close> sets the
  \<open>id\<close> to the given URI whatever was there before, and \<open>post_to_outbox\<close> leaves
  the activity with the URL of the identifier it has just minted: the last assignment
  wins.
\<close>

theorem id_last_write_wins:
  "(init B t kwargs = Inr a \<longrightarrow> dget (data a) ''id'' = dget kwargs ''id'')
   \<and> (parse_activity B kwargs expected = Inr a' \<longrightarrow> dget (data a') ''id'' = dget kwargs ''id'')
   \<and> dget (data (snd (outbox_set_id self uri obj_id))) ''id'' = Some (JStr uri)
   \<and> dget (data (snd (snd (post_to_outbox (Some b) self)))) ''id''
       = Some (JStr (ACTIVITY_URL b (RANDOM_IDS b (MINTED b))))"
  using outbox_set_id_id [of self uri obj_id] post_to_outbox_id [of b self]
    init_keeps_id [of B t kwargs a] parse_activity_keeps_id [of B kwargs expected a']
  by simp

text \<open>Alice's follow as bob's server parses it, and as bob's server would post it.\<close>

lemma follow_received_parsed:
  "parse_activity (Some world)
     [(''type'', JStr ''Follow''), (''id'', JStr ''https://a.example/f1''),
      (''actor'', JStr ''https://a.example/alice''),
      (''object'', JStr ''https://b.example/bob'')] None = Inr follow_received
   \<and> init (Some world) FOLLOW
     [(''type'', JStr ''Follow''), (''id'', JStr ''https://a.example/f1''),
      (''actor'', JStr ''https://a.example/alice''),
      (''object'', JStr ''https://b.example/bob'')] = Inr follow_received"
  by (simp add: model_defs world_defs follow_received_def)

theorem id_last_write_wins_witness:
  "init (Some world) FOLLOW
     [(''type'', JStr ''Follow''), (''id'', JStr ''https://a.example/f1''),
      (''actor'', JStr ''https://a.example/alice''),
      (''object'', JStr ''https://b.example/bob'')] = Inr follow_received
   \<and> parse_activity (Some world)
     [(''type'', JStr ''Follow''), (''id'', JStr ''https://a.example/f1''),
      (''actor'', JStr ''https://a.example/alice''),
      (''object'', JStr ''https://b.example/bob'')] None = Inr follow_received
   \<and> dget (data follow_received) ''id'' = Some (JStr ''https://a.example/f1'')
   \<and> dget (data (snd (outbox_set_id follow_received ''https://b.example/outbox/x'' ''x''))) ''id''
     = Some (JStr ''https://b.example/outbox/x'')
   \<and> dget (data (snd (snd (post_to_outbox (Some world) follow_received)))) ''id''
       = Some (JStr ''https://b.example/outbox/x'')"
  using id_last_write_wins [of "Some world" FOLLOW
      "[(''type'', JStr ''Follow''), (''id'', JStr ''https://a.example/f1''),
        (''actor'', JStr ''https://a.example/alice''),
        (''object'', JStr ''https://b.example/bob'')]" follow_received None follow_received
      follow_received "''https://b.example/outbox/x''" "''x''" world]
    follow_received_parsed
  by (simp add: world_def dget_def)

text \<open>
  The unamended statement fails: an activity received with an \<open>id\<close> gets another
  one from \<open>outbox_set_id\<close>, and a third from a second call.
\<close>

theorem id_reassigned_counterexample:
  "getattr follow_received ''id'' = JStr ''https://a.example/f1''
   \<and> getattr (snd (outbox_set_id follow_received ''https://b.example/outbox/x'' ''x'')) ''id''
       = JStr ''https://b.example/outbox/x''
   \<and> getattr (snd (outbox_set_id
                      (snd (outbox_set_id follow_received ''https://b.example/outbox/x'' ''x''))
                      ''https://b.example/outbox/xx'' ''xx'')) ''id''
       = JStr ''https://b.example/outbox/xx''"
  by (simp add: model_defs follow_received_def)

section \<open>The type registry (C8)\<close>

text \<open>
  C8 at a payload whose type is not a member of \<open>ActivityType\<close>: the conversion
  \<open>ActivityType(payload["type"])\<close> raises \<open>ValueError\<close> before either check of
  \<open>parse_activity\<close> is reached, whatever type is expected.
\<close>

theorem parse_activity_unknown_type:
  "parse_activity B [(''type'', JStr ''Question'')] expected = Inl ValueError"
  by (simp add: parse_activity.simps dget_def ActivityType_of_def ActivityTypes_def)

section \<open>Recipients (C2)\<close>

definition note_to_carol :: activity where
  "note_to_carol =
     \<lparr>ACTIVITY_TYPE = NOTE,
      data = [(''type'', JStr ''Note''), (''@context'', normal_context),
              (''sensitive'', JBool False),
              (''attributedTo'', JStr ''https://a.example/alice''),
              (''to'', JList [JStr ''https://c.example/carol''])],
      ctx_set = False, obj_reset = False\<rparr>"

definition note_to_bob_and_dave :: activity where
  "note_to_bob_and_dave =
     \<lparr>ACTIVITY_TYPE = NOTE,
      data = [(''type'', JStr ''Note''), (''@context'', normal_context),
              (''sensitive'', JBool False),
              (''attributedTo'', JStr ''https://a.example/alice''),
              (''to'', JList [JStr ''https://b.example/bob'', JStr ''https://b.example/dave''])],
      ctx_set = False, obj_reset = False\<rparr>"

text \<open>
  C2 at two notes of alice.  Carol's \<open>endpoints\<close> declare no shared inbox: the
  result is the absent value \<open>None\<close>, not her inbox.  Bob and Dave share a shared
  inbox: it is listed once, and Dave's own inbox is listed as well.
\<close>

theorem recipients_absent_endpoint:
  "init (Some world) NOTE
     [(''attributedTo'', JStr ''https://a.example/alice''),
      (''to'', JList [JStr ''https://c.example/carol''])] = Inr note_to_carol
   \<and> recipients (Some world) note_to_carol = Inr [JNull]
   \<and> init (Some world) NOTE
       [(''attributedTo'', JStr ''https://a.example/alice''),
        (''to'', JList [JStr ''https://b.example/bob'', JStr ''https://b.example/dave''])]
     = Inr note_to_bob_and_dave
   \<and> recipients (Some world) note_to_bob_and_dave
     = Inr [JStr ''https://b.example/inbox'', JStr ''https://b.example/dave/inbox'']"
  by (simp add: model_defs world_defs note_to_carol_def note_to_bob_and_dave_def)

section \<open>Announce of a legacy reference (C9)\<close>

definition announce_legacy :: activity where
  "announce_legacy =
     \<lparr>ACTIVITY_TYPE = ANNOUNCE,
      data = [(''type'', JStr ''Announce''), (''id'', JStr ''https://a.example/a1''),
              (''actor'', JStr ''https://a.example/alice''),
              (''object'', JStr ''tag:a.example,2018-06-01:objectId=1:objectType=Status''),
              (''@context'', normal_context)],
      ctx_set = False, obj_reset = False\<rparr>"

text \<open>
  C9 at an \<open>Announce\<close> of an OStatus notice: the pipeline returns without an error
  and without an inbox share, but the activity has been stored in Bob's inbox.
\<close>

theorem announce_legacy_is_stored:
  "parse_activity (Some world)
     [(''type'', JStr ''Announce''), (''id'', JStr ''https://a.example/a1''),
      (''actor'', JStr ''https://a.example/alice''),
      (''object'', JStr ''tag:a.example,2018-06-01:objectId=1:objectType=Status'')] None
     = Inr announce_legacy
   \<and> process_from_inbox (Some world) announce_legacy (person bob)
     = (Inr (), Some (world\<lparr>INBOX := [(JStr ''https://b.example/bob'', announce_legacy)]\<rparr>))"
  by (simp add: model_defs world_defs announce_legacy_def)

section \<open>What the resolving functions read\<close>

text \<open>
  Parsing and resolving read the IRI table, \<open>REPR\<close> and the clock, and nothing of the
  store.
\<close>

definition same_resolver :: "backend \<Rightarrow> backend \<Rightarrow> bool" where
  "same_resolver b b' = (IRIS b' = IRIS b \<and> REPR b' = REPR b \<and> UTCNOW b' = UTCNOW b)"

lemma fetch_iri_frame: "same_resolver b b' \<Longrightarrow> fetch_iri b' x = fetch_iri b x"
  by (simp add: same_resolver_def fetch_iri_def split: json.splits)

lemma u_validate_person_frame:
  "same_resolver b b' \<Longrightarrow> u_validate_person (Some b') x = u_validate_person (Some b) x"
  by (simp add: u_validate_person_def fetch_iri_frame split: sum.splits)

lemma init_fields_frame:
  "same_resolver b b' \<Longrightarrow> init_fields (Some b') t kwargs = init_fields (Some b) t kwargs"
  by (simp add: init_fields_def init_actor_def u_validate_person_frame
      split: sum.splits prod.splits)

lemma resolver_frame:
  assumes s: "same_resolver b b'"
  shows "B = Some b \<Longrightarrow> parse_activity (Some b') payload expected = parse_activity B payload expected"
    and "B = Some b \<Longrightarrow> init (Some b') t kwargs = init B t kwargs"
    and "B = Some b \<Longrightarrow> Create_init (Some b') self kwargs = Create_init B self kwargs"
    and "B = Some b \<Longrightarrow> get_object (Some b') self = get_object B self"
    and "B = Some b \<Longrightarrow> get_actor (Some b') self = get_actor B self"
proof (induction B payload expected and B t kwargs and B self kwargs and B self and B self
    rule: parse_activity_init_Create_init_get_object_get_actor.induct)
  case (1 B payload expected)
  then show ?case
    by (auto simp: parse_activity.simps [of "Some b'"] parse_activity.simps [of "Some b"]
        split: option.splits sum.splits)
next
  case (2 B t kwargs)
  then show ?case
    using init_fields_frame [OF s, of t kwargs]
    by (auto simp: init.simps [of "Some b'"] init.simps [of "Some b"]
        split: sum.splits prod.splits)
next
  case (3 B self kwargs)
  then have B: "B = Some b" by simp
  have go: "get_object (Some b') self = get_object (Some b) self"
    using 3 by simp
  have ga: "get_actor (Some b') self = get_actor (Some b) self"
    if "get_object (Some b) self = Inr p" "as_activity p = Inr obj"
       "\<not> truthy (getattr obj ''attributedTo'')" for p obj
    using 3 that by simp
  have now: "UTCNOW b' = UTCNOW b"
    using s by (simp add: same_resolver_def)
  show ?case
  proof (cases "get_object (Some b) self")
    case (Inl e)
    with go B show ?thesis by (simp add: Create_init.simps)
  next
    case p: (Inr p)
    show ?thesis
    proof (cases "as_activity p")
      case (Inl e)
      with p go B show ?thesis by (simp add: Create_init.simps)
    next
      case obj: (Inr obj)
      show ?thesis
      proof (cases "truthy (getattr obj ''attributedTo'')")
        case True
        with p obj go B now show ?thesis by (simp add: Create_init.simps)
      next
        case False
        from ga [OF p obj False] have a: "get_actor (Some b') self = get_actor (Some b) self" .
        show ?thesis
          unfolding B Create_init.simps [of "Some b'"] Create_init.simps [of "Some b"] go a
          by (simp add: p obj False now cong: sum.case_cong)
      qed
    qed
  qed
next
  case (4 B self)
  then have B: "B = Some b" by simp
  have inl: "parse_activity (Some b') od None = parse_activity (Some b) od None"
    if "\<not> (\<not> obj_reset self \<and> truthy (getattr self ''_BaseActivity__obj''))"
       "dget (data self) ''object'' = Some (JObj od)" for od
    using 4 that by simp
  have fet: "parse_activity (Some b') doc None = parse_activity (Some b) doc None"
    if "\<not> (\<not> obj_reset self \<and> truthy (getattr self ''_BaseActivity__obj''))"
       "dget (data self) ''object'' = Some ob" "\<not> is_dict ob" "fetch_iri b ob = Inr doc"
       "ActivityType_of (dget_default doc ''type'') = Inr ot"
       "ot \<in> set (ALLOWED_OBJECT_TYPES (ACTIVITY_TYPE self))" for ob doc ot
    using 4 that by (cases ob) (simp_all add: is_dict_def)
  show ?case
  proof (cases "\<not> obj_reset self \<and> truthy (getattr self ''_BaseActivity__obj'')")
    case True
    then show ?thesis by (simp add: B get_object.simps)
  next
    case plain: False
    then have off:
      "(\<not> obj_reset self \<and> truthy (getattr self ''_BaseActivity__obj'')) = False"
      by simp
    show ?thesis
    proof (cases "dget (data self) ''object''")
      case None
      then show ?thesis by (simp add: B get_object.simps off)
    next
      case (Some ob)
      show ?thesis
      proof (cases "is_dict ob")
        case True
        then obtain od where od: "ob = JObj od"
          by (cases ob) (simp_all add: is_dict_def)
        from inl [OF plain] Some od show ?thesis
          by (simp add: B get_object.simps off)
      next
        case False
        have e: "get_object (Some x) self =
                   (case fetch_iri x ob of
                      Inl e \<Rightarrow> Inl e
                    | Inr doc \<Rightarrow>
                        (case ActivityType_of (dget_default doc ''type'') of
                           Inl e \<Rightarrow> Inl e
                         | Inr ot \<Rightarrow>
                             if ot \<notin> set (ALLOWED_OBJECT_TYPES (ACTIVITY_TYPE self))
                             then Inl UnexpectedActivityTypeError
                             else map_sum id Instance (parse_activity (Some x) doc None)))"
          for x
          using Some False by (cases ob) (simp_all add: get_object.simps is_dict_def off)
        show ?thesis
        proof (cases "fetch_iri b ob")
          case (Inl err)
          then show ?thesis by (simp add: B e fetch_iri_frame [OF s])
        next
          case doc: (Inr doc)
          show ?thesis
          proof (cases "ActivityType_of (dget_default doc ''type'')")
            case (Inl err)
            with doc show ?thesis by (simp add: B e fetch_iri_frame [OF s])
          next
            case ot: (Inr ot)
            show ?thesis
            proof (cases "ot \<in> set (ALLOWED_OBJECT_TYPES (ACTIVITY_TYPE self))")
              case True
              with fet [OF plain Some False doc ot] doc ot show ?thesis
                by (simp add: B e fetch_iri_frame [OF s])
            next
              case False
              with doc ot show ?thesis by (simp add: B e fetch_iri_frame [OF s])
            qed
          qed
        qed
      qed
    qed
  qed
next
  case (5 B self)
  then have B: "B = Some b" by simp
  define chosen where
    "chosen x = (if \<not> truthy (dget_default (data self) ''actor'')
                    \<and> ACTOR_REQUIRED (ACTIVITY_TYPE self)
                 then (if ACTIVITY_TYPE self = NOTE
                       then Inr (JStr (py_str x (dget_default (data self) ''attributedTo'')))
                       else Inl BadActivityError)
                 else Inr (dget_default (data self) ''actor''))" for x
  have c: "chosen b' = chosen b"
    using s by (simp add: chosen_def py_str_def same_resolver_def split: json.splits)
  have e: "get_actor (Some x) self =
             (case chosen x of
                Inl e \<Rightarrow> Inl e
              | Inr actor \<Rightarrow>
                  if \<not> (is_str actor \<or> is_dict actor) then Inl BadActivityError
                  else
                    (case u_actor_id actor of
                       Inl e \<Rightarrow> Inl e
                     | Inr actor_id \<Rightarrow>
                         (case fetch_iri x actor_id of
                            Inl e \<Rightarrow> Inl e
                          | Inr doc \<Rightarrow> init (Some x) PERSON doc)))" for x
    by (simp add: get_actor.simps chosen_def)
  have ih: "init (Some b') PERSON doc = init (Some b) PERSON doc"
    if "chosen b = Inr actor" "is_str actor \<or> is_dict actor" "u_actor_id actor = Inr actor_id"
       "fetch_iri b actor_id = Inr doc" for actor actor_id doc
    using 5 that by (simp add: chosen_def)
  show ?case
  proof (cases "chosen b")
    case (Inl err)
    then show ?thesis by (simp add: B e c)
  next
    case actor: (Inr actor)
    show ?thesis
    proof (cases "is_str actor \<or> is_dict actor")
      case False
      with actor show ?thesis by (simp add: B e c)
    next
      case ok: True
      show ?thesis
      proof (cases "u_actor_id actor")
        case (Inl err)
        with actor ok show ?thesis by (simp add: B e c)
      next
        case aid: (Inr actor_id)
        show ?thesis
        proof (cases "fetch_iri b actor_id")
          case (Inl err)
          with actor ok aid show ?thesis by (simp add: B e c fetch_iri_frame [OF s])
        next
          case (Inr doc)
          with ih [OF actor ok aid Inr] actor ok aid show ?thesis
            by (simp add: B e c fetch_iri_frame [OF s])
        qed
      qed
    qed
  qed
qed

section \<open>What the pipelines write\<close>

lemma same_resolver_refl: "same_resolver b b"
  by (simp add: same_resolver_def)

lemma get_actor_frame: "same_resolver b b' \<Longrightarrow> get_actor (Some b') self = get_actor (Some b) self"
  by (rule resolver_frame(5)) simp_all


lemma u_undo_outbox_effect:
  "u_undo_outbox b self as_actor = (r, b') \<Longrightarrow> \<exists>es. b' = b\<lparr>EFFECTS := EFFECTS b @ es\<rparr>"
  by (auto simp: u_undo_outbox_def notify_def split: if_splits intro: exI [of _ "[]"])

lemma u_undo_inbox_effect:
  "u_undo_inbox b self as_actor = (r, b') \<Longrightarrow> \<exists>es. b' = b\<lparr>EFFECTS := EFFECTS b @ es\<rparr>"
  by (auto simp: u_undo_inbox_def notify_def split: if_splits intro: exI [of _ "[]"])

lemma u_post_to_outbox_effect:
  assumes "u_post_to_outbox b self as_actor obj_id activity recips = (r, b')"
  shows "\<exists>es. b' = b\<lparr>EFFECTS := EFFECTS b @ es\<rparr>"
proof (cases "ACTIVITY_TYPE self = UNDO")
  case True
  with assms show ?thesis
    by (auto simp: u_post_to_outbox_def split: sum.splits prod.splits if_splits
        dest: u_undo_outbox_effect intro: exI [of _ "[]"])
next
  case False
  with assms show ?thesis
    by (auto simp: u_post_to_outbox_def notify_def split: if_splits intro: exI [of _ "[]"])
qed

lemma deliver_effect:
  "deliver b self payload rs = (r, b') \<Longrightarrow> \<exists>ds. b' = b\<lparr>DELIVERED := DELIVERED b @ ds\<rparr>"
proof (induction rs arbitrary: b)
  case Nil
  then show ?case by (auto intro: exI [of _ "[]"])
next
  case (Cons recp rs)
  show ?case
  proof (cases "get_actor (Some b) self")
    case (Inl e)
    with Cons.prems show ?thesis by (auto intro: exI [of _ "[]"])
  next
    case (Inr actor)
    with Cons.prems have "deliver (post_to_remote_inbox b actor payload recp) self payload rs = (r, b')"
      by simp
    from Cons.IH [OF this] obtain ds where
      "b' = (post_to_remote_inbox b actor payload recp)
              \<lparr>DELIVERED := DELIVERED (post_to_remote_inbox b actor payload recp) @ ds\<rparr>"
      by blast
    then show ?thesis
      by (auto simp: post_to_remote_inbox_def
          intro: exI [of _ "(getattr actor ''id'', payload, recp) # ds"])
  qed
qed

text \<open>
  A backend that differs from \<open>b\<close> in what \<open>post_to_outbox\<close> may write: the count of
  minted identifiers, the outbox, the recorded callbacks and the deliveries.
\<close>

definition outbox_written :: "backend \<Rightarrow> backend \<Rightarrow> bool" where
  "outbox_written b b' =
     (\<exists>n os es ds.
        b' = b\<lparr>MINTED := MINTED b + n, OUTBOX := OUTBOX b @ os, EFFECTS := EFFECTS b @ es,
               DELIVERED := DELIVERED b @ ds\<rparr>)"

lemma outbox_writtenI:
  "b' = b\<lparr>MINTED := MINTED b + n, OUTBOX := OUTBOX b @ os, EFFECTS := EFFECTS b @ es,
           DELIVERED := DELIVERED b @ ds\<rparr> \<Longrightarrow> outbox_written b b'"
  by (auto simp: outbox_written_def)

lemma outbox_written_refl: "outbox_written b b"
  by (rule outbox_writtenI [where n = 0 and os = "[]" and es = "[]" and ds = "[]"]) simp

lemma outbox_written_trans:
  "outbox_written b b' \<Longrightarrow> outbox_written b' b'' \<Longrightarrow> outbox_written b b''"
proof -
  assume "outbox_written b b'" and "outbox_written b' b''"
  then obtain n os es ds n' os' es' ds' where
    1: "b' = b\<lparr>MINTED := MINTED b + n, OUTBOX := OUTBOX b @ os, EFFECTS := EFFECTS b @ es,
               DELIVERED := DELIVERED b @ ds\<rparr>"
    and 2: "b'' = b'\<lparr>MINTED := MINTED b' + n', OUTBOX := OUTBOX b' @ os',
                 EFFECTS := EFFECTS b' @ es', DELIVERED := DELIVERED b' @ ds'\<rparr>"
    unfolding outbox_written_def by blast
  show ?thesis
    by (rule outbox_writtenI [where n = "n + n'" and os = "os @ os'" and es = "es @ es'"
          and ds = "ds @ ds'"])
       (simp add: 1 2)
qed

lemma outbox_written_resolver: "outbox_written b b' \<Longrightarrow> same_resolver b b'"
  by (auto simp: outbox_written_def same_resolver_def)

lemma outbox_written_inbox: "outbox_written b b' \<Longrightarrow> INBOX b' = INBOX b \<and> BLOCKS b' = BLOCKS b"
  by (auto simp: outbox_written_def)

lemma outbox_written_effects:
  "b' = b\<lparr>EFFECTS := EFFECTS b @ es\<rparr> \<Longrightarrow> outbox_written b b'"
  by (rule outbox_writtenI [where n = 0 and os = "[]" and es = es and ds = "[]"]) simp

lemma outbox_written_delivered:
  "b' = b\<lparr>DELIVERED := DELIVERED b @ ds\<rparr> \<Longrightarrow> outbox_written b b'"
  by (rule outbox_writtenI [where n = 0 and os = "[]" and es = "[]" and ds = ds]) simp

lemma outbox_written_outbox_new: "outbox_written b (outbox_new b actor a)"
  by (rule outbox_writtenI [where n = 0 and os = "[(getattr actor ''id'', a)]" and es = "[]"
          and ds = "[]"])
     (simp add: outbox_new_def)

lemma outbox_written_notify: "outbox_written b (notify c b actor a)"
  by (rule outbox_written_effects [where es = "[(c, getattr actor ''id'', a)]"]) (simp add: notify_def)

lemma outbox_written_minted: "outbox_written b (snd (random_object_id b))"
  by (rule outbox_writtenI [where n = 1 and os = "[]" and es = "[]" and ds = "[]"]) (simp add: random_object_id_def)

lemma post_to_outbox_persist_written:
  assumes "post_to_outbox_persist b1 self1 obj_id = (r, B', s')"
  shows "\<exists>b'. B' = Some b' \<and> outbox_written b1 b'"
proof (cases "get_actor (Some b1) self1")
  case (Inl e)
  with assms show ?thesis
    by (auto simp: post_to_outbox_persist_def outbox_written_refl)
next
  case actor: (Inr actor)
  let ?b2 = "outbox_new b1 actor self1"
  have b2: "outbox_written b1 ?b2" by (rule outbox_written_outbox_new)
  show ?thesis
  proof (cases "recipients (Some ?b2) self1")
    case (Inl e)
    with assms actor b2 show ?thesis by (auto simp: post_to_outbox_persist_def)
  next
    case recips: (Inr recips)
    show ?thesis
    proof (cases "clean_activity (data self1)")
      case (Inl e)
      with assms actor recips b2 show ?thesis
        by (auto simp: post_to_outbox_persist_def to_dict_plain)
    next
      case act: (Inr activity)
      let ?s2 = "alias_object self1 activity"
      show ?thesis
      proof (cases "get_actor (Some ?b2) ?s2")
        case (Inl e)
        with assms actor recips act b2 show ?thesis
          by (auto simp: post_to_outbox_persist_def to_dict_plain)
      next
        case as_actor: (Inr as_actor)
        obtain rh b3 where h: "u_post_to_outbox ?b2 ?s2 as_actor obj_id activity recips = (rh, b3)"
          by (cases "u_post_to_outbox ?b2 ?s2 as_actor obj_id activity recips")
        from u_post_to_outbox_effect [OF h] have b3: "outbox_written ?b2 b3"
          by (auto intro: outbox_written_effects)
        obtain rd b4 where d: "deliver b3 ?s2 (JObj activity) recips = (rd, b4)"
          by (cases "deliver b3 ?s2 (JObj activity) recips")
        from deliver_effect [OF d] have b4: "outbox_written b3 b4"
          by (auto intro: outbox_written_delivered)
        from assms actor recips act as_actor h d
        have "B' = Some b3 \<or> B' = Some b4"
          by (auto simp: post_to_outbox_persist_def to_dict_plain split: sum.splits if_splits)
        with b2 b3 b4 show ?thesis
          by (auto intro: outbox_written_trans)
      qed
    qed
  qed
qed

lemma post_to_outbox_written:
  assumes "post_to_outbox (Some b) self = (r, B', s')"
  shows "\<exists>b'. B' = Some b' \<and> outbox_written b b'"
proof -
  obtain obj_id b1 where m: "random_object_id b = (obj_id, b1)"
    by (cases "random_object_id b")
  then have b1: "outbox_written b b1"
    using outbox_written_minted [of b] by simp
  obtain ri self1 where i: "outbox_set_id self (activity_url b1 obj_id) obj_id = (ri, self1)"
    by (cases "outbox_set_id self (activity_url b1 obj_id) obj_id")
  from assms m i
  have "B' = Some b1 \<or> post_to_outbox_persist b1 self1 obj_id = (r, B', s')"
    by (auto simp: post_to_outbox_def split: sum.splits if_splits)
  with b1 show ?thesis
    by (auto dest!: post_to_outbox_persist_written intro: outbox_written_trans)
qed

lemma u_process_from_inbox_written:
  assumes "u_process_from_inbox b self as_actor = (r, b')"
  shows "outbox_written b b'"
proof (cases "ACTIVITY_TYPE self = FOLLOW")
  case True
  show ?thesis
  proof (cases "build_accept (Some b) self")
    case (Inl e)
    with assms True show ?thesis
      by (simp add: u_process_from_inbox_def Follow_process_from_inbox_def outbox_written_refl)
  next
    case (Inr accept)
    obtain rp B2 a2 where p: "post_to_outbox (Some b) accept = (rp, B2, a2)"
      by (cases "post_to_outbox (Some b) accept")
    from post_to_outbox_written [OF p] obtain b2 where b2: "B2 = Some b2" "outbox_written b b2"
      by blast
    from assms True Inr p b2(1) have "b' = b2 \<or> b' = notify NEW_FOLLOWER b2 as_actor self"
      by (auto simp: u_process_from_inbox_def Follow_process_from_inbox_def split: sum.splits)
    with b2(2) show ?thesis
      by (auto intro: outbox_written_trans outbox_written_notify)
  qed
next
  case nf: False
  show ?thesis
  proof (cases "ACTIVITY_TYPE self = UNDO")
    case True
    with assms show ?thesis
      by (auto simp: u_process_from_inbox_def outbox_written_refl
          split: sum.splits prod.splits if_splits
          dest!: u_undo_inbox_effect intro: outbox_written_effects)
  next
    case False
    with assms nf show ?thesis
      by (auto simp: u_process_from_inbox_def Announce_process_from_inbox_def
          outbox_written_refl outbox_written_notify
          split: sum.splits option.splits json.splits pyobj.splits if_splits)
  qed
qed

section \<open>Silent drops and idempotent insertion (C1)\<close>

lemma process_from_inbox_drop:
  assumes "get_actor (Some b) self = Inr actor"
    and "outbox_is_blocked b as_actor (getattr actor ''id'')
         \<or> inbox_get_by_iri b as_actor (getattr self ''id'') \<noteq> None"
  shows "process_from_inbox (Some b) self as_actor = (Inr (), Some b)"
  using assms by (auto simp: process_from_inbox_def)

lemma process_from_inbox_stores:
  assumes "get_actor (Some b) self = Inr actor"
    and "\<not> outbox_is_blocked b as_actor (getattr actor ''id'')"
    and "inbox_get_by_iri b as_actor (getattr self ''id'') = None"
    and "process_from_inbox (Some b) self as_actor = (Inr (), Some b1)"
  shows "outbox_written (inbox_new b as_actor self) b1"
proof -
  obtain r b2 where h: "u_process_from_inbox (inbox_new b as_actor self) self as_actor = (r, b2)"
    by (cases "u_process_from_inbox (inbox_new b as_actor self) self as_actor")
  from assms h have "b1 = b2"
    by (auto simp: process_from_inbox_def split: sum.splits if_splits)
  with u_process_from_inbox_written [OF h] show ?thesis by simp
qed

lemma inbox_get_by_iri_stored:
  "INBOX b1 = INBOX b @ [(getattr as_actor ''id'', self)] \<Longrightarrow>
   inbox_get_by_iri b1 as_actor (getattr self ''id'') \<noteq> None"
  by (auto simp: inbox_get_by_iri_def find_None_iff)

lemma inbox_get_by_iri_absent:
  "inbox_get_by_iri b as_actor i = None \<Longrightarrow>
   filter (\<lambda>e. fst e = getattr as_actor ''id'' \<and> getattr (snd e) ''id'' = i) (INBOX b) = []"
  by (auto simp: inbox_get_by_iri_def find_None_iff filter_empty_conv)

lemma process_from_inbox_twice:
  assumes a: "get_actor (Some b) self = Inr actor"
    and nb: "\<not> outbox_is_blocked b as_actor (getattr actor ''id'')"
    and nd: "inbox_get_by_iri b as_actor (getattr self ''id'') = None"
    and p: "process_from_inbox (Some b) self as_actor = (Inr (), Some b1)"
  shows "filter (\<lambda>e. fst e = getattr as_actor ''id''
                      \<and> getattr (snd e) ''id'' = getattr self ''id'') (INBOX b1)
           = [(getattr as_actor ''id'', self)]"
    and "process_from_inbox (Some b1) self as_actor = (Inr (), Some b1)"
proof -
  let ?b0 = "inbox_new b as_actor self"
  from process_from_inbox_stores [OF a nb nd p] have w: "outbox_written ?b0 b1" .
  then have i: "INBOX b1 = INBOX b @ [(getattr as_actor ''id'', self)]"
    using outbox_written_inbox [of ?b0 b1] by (simp add: inbox_new_def)
  show "filter (\<lambda>e. fst e = getattr as_actor ''id''
                      \<and> getattr (snd e) ''id'' = getattr self ''id'') (INBOX b1)
           = [(getattr as_actor ''id'', self)]"
    using inbox_get_by_iri_absent [OF nd] by (simp add: i)
  have "same_resolver b ?b0"
    by (simp add: same_resolver_def inbox_new_def)
  with outbox_written_resolver [OF w] have "same_resolver b b1"
    by (simp add: same_resolver_def)
  then have "get_actor (Some b1) self = Inr actor"
    using a by (simp add: get_actor_frame)
  then show "process_from_inbox (Some b1) self as_actor = (Inr (), Some b1)"
    using inbox_get_by_iri_stored [OF i] by (simp add: process_from_inbox_drop)
qed

text \<open>The actors as \<open>get_actor\<close> returns them.\<close>

definition alice_actor :: activity where
  "alice_actor =
     \<lparr>ACTIVITY_TYPE = PERSON,
      data = [(''type'', JStr ''Person''), (''id'', JStr ''https://a.example/alice''),
              (''@context'', normal_context),
              (''inbox'', JStr ''https://a.example/alice/inbox'')],
      ctx_set = False, obj_reset = False\<rparr>"

definition mallory_actor :: activity where
  "mallory_actor =
     \<lparr>ACTIVITY_TYPE = PERSON,
      data = [(''type'', JStr ''Person''), (''id'', JStr ''https://m.example/mallory''),
              (''@context'', normal_context),
              (''inbox'', JStr ''https://m.example/mallory/inbox'')],
      ctx_set = False, obj_reset = False\<rparr>"

text \<open>Mallory undoes the follow of alice; in the second world bob has blocked her.\<close>

definition undo_by_mallory :: activity where
  "undo_by_mallory =
     \<lparr>ACTIVITY_TYPE = UNDO,
      data = [(''type'', JStr ''Undo''), (''id'', JStr ''https://m.example/u1''),
              (''actor'', JStr ''https://m.example/mallory''),
              (''object'', JObj [(''type'', JStr ''Follow''), (''id'', JStr ''https://a.example/f1''),
                                  (''actor'', JStr ''https://a.example/alice''),
                                  (''object'', JStr ''https://b.example/bob'')]),
              (''@context'', normal_context)],
      ctx_set = False, obj_reset = False\<rparr>"

definition world_blocking :: backend where
  "world_blocking =
     world\<lparr>BLOCKS := [(JStr ''https://b.example/bob'', JStr ''https://m.example/mallory'')]\<rparr>"

text \<open>The world after bob's inbox has taken alice's like.\<close>

definition world_liked :: backend where
  "world_liked =
     world\<lparr>INBOX := [(JStr ''https://b.example/bob'', like_note)],
            EFFECTS := [(INBOX_LIKE, JStr ''https://b.example/bob'', like_note)]\<rparr>"

text \<open>
  C1, as amended.  \<open>process_from_inbox\<close> resolves the sender first.  When the sender
  does not resolve, the call raises the error of the resolution and leaves the backend as
  it was, whatever the inbox holds.  When the sender resolves: if the backend reports the
  sender blocked by the recipient, or holds an activity with the same id in the
  recipient's inbox, the call returns without an error and leaves the backend as it was
  (nothing stored, no effect of any hook); and when a first call, neither blocked nor a
  duplicate, has returned, the inbox holds exactly one entry with that id for the
  recipient, and a second call returns without an error and changes nothing.
\<close>

theorem inbox_drop_and_idempotence:
  "(get_actor (Some b) self = Inl e
    \<longrightarrow> process_from_inbox (Some b) self as_actor = (Inl e, Some b))
   \<and> (get_actor (Some b) self = Inr actor \<longrightarrow>
        (outbox_is_blocked b as_actor (getattr actor ''id'')
         \<or> inbox_get_by_iri b as_actor (getattr self ''id'') \<noteq> None
         \<longrightarrow> process_from_inbox (Some b) self as_actor = (Inr (), Some b))
        \<and> (\<not> outbox_is_blocked b as_actor (getattr actor ''id'')
           \<and> inbox_get_by_iri b as_actor (getattr self ''id'') = None
           \<and> process_from_inbox (Some b) self as_actor = (Inr (), Some b1)
           \<longrightarrow> filter (\<lambda>e. fst e = getattr as_actor ''id''
                              \<and> getattr (snd e) ''id'' = getattr self ''id'') (INBOX b1)
                 = [(getattr as_actor ''id'', self)]
               \<and> process_from_inbox (Some b1) self as_actor = (Inr (), Some b1)))"
proof -
  have "get_actor (Some b) self = Inl e
        \<Longrightarrow> process_from_inbox (Some b) self as_actor = (Inl e, Some b)"
    by (simp add: process_from_inbox_def)
  then show ?thesis
    using process_from_inbox_drop [of b self actor as_actor]
      process_from_inbox_twice [of b self actor as_actor b1]
    by blast
qed

text \<open>
  A like whose sender is unknown to the backend, and a world in which bob's inbox holds
  it already.
\<close>

definition like_ghost :: activity where
  "like_ghost =
     \<lparr>ACTIVITY_TYPE = LIKE,
      data = [(''type'', JStr ''Like''), (''id'', JStr ''https://g.example/l1''),
              (''actor'', JStr ''https://g.example/ghost''),
              (''object'', JStr ''https://c.example/n1''),
              (''@context'', normal_context)],
      ctx_set = False, obj_reset = False\<rparr>"

definition world_dup :: backend where
  "world_dup = world\<lparr>INBOX := [(JStr ''https://b.example/bob'', like_ghost)]\<rparr>"

text \<open>A sender that does not resolve, a blocked sender, and a like delivered twice.\<close>

lemma get_actor_like_note: "get_actor (Some world) like_note = Inr alice_actor"
  by (simp add: model_defs world_defs like_note_def alice_actor_def)

lemma get_actor_undo_by_mallory:
  "get_actor (Some world_blocking) undo_by_mallory = Inr mallory_actor"
  by (simp add: model_defs world_defs world_blocking_def undo_by_mallory_def mallory_actor_def)

lemma like_note_processed:
  "process_from_inbox (Some world) like_note (person bob) = (Inr (), Some world_liked)"
  by (simp add: model_defs world_defs like_note_def world_liked_def)

lemma get_actor_like_ghost: "get_actor (Some world_dup) like_ghost = Inl BackendFailure"
  by (simp add: model_defs world_defs like_ghost_def world_dup_def)

theorem inbox_drop_and_idempotence_witness:
  "get_actor (Some world_dup) like_ghost = Inl BackendFailure
   \<and> process_from_inbox (Some world_dup) like_ghost (person bob)
       = (Inl BackendFailure, Some world_dup)
   \<and> get_actor (Some world_blocking) undo_by_mallory = Inr mallory_actor
   \<and> outbox_is_blocked world_blocking (person bob) (getattr mallory_actor ''id'')
   \<and> process_from_inbox (Some world_blocking) undo_by_mallory (person bob)
       = (Inr (), Some world_blocking)
   \<and> get_actor (Some world) like_note = Inr alice_actor
   \<and> \<not> outbox_is_blocked world (person bob) (getattr alice_actor ''id'')
   \<and> inbox_get_by_iri world (person bob) (getattr like_note ''id'') = None
   \<and> process_from_inbox (Some world) like_note (person bob) = (Inr (), Some world_liked)
   \<and> filter (\<lambda>e. fst e = getattr (person bob) ''id''
                    \<and> getattr (snd e) ''id'' = getattr like_note ''id'') (INBOX world_liked)
       = [(getattr (person bob) ''id'', like_note)]
   \<and> process_from_inbox (Some world_liked) like_note (person bob) = (Inr (), Some world_liked)"
proof -
  have 1: "outbox_is_blocked world_blocking (person bob) (getattr mallory_actor ''id'')"
    by (simp add: outbox_is_blocked_def world_blocking_def world_defs mallory_actor_def
        getattr_def dget_default_def)
  have 2: "\<not> outbox_is_blocked world (person bob) (getattr alice_actor ''id'')"
    by (simp add: outbox_is_blocked_def world_defs)
  have 3: "inbox_get_by_iri world (person bob) (getattr like_note ''id'') = None"
    by (simp add: inbox_get_by_iri_def world_defs)
  from inbox_drop_and_idempotence [of world_blocking undo_by_mallory BackendFailure "person bob"
      mallory_actor world_blocking]
    inbox_drop_and_idempotence [of world like_note BackendFailure "person bob" alice_actor
      world_liked]
    inbox_drop_and_idempotence [of world_dup like_ghost BackendFailure "person bob" alice_actor
      world_dup]
    1 2 3 like_note_processed get_actor_like_note get_actor_undo_by_mallory get_actor_like_ghost
  show ?thesis by simp
qed

text \<open>
  The unamended statement fails for a duplicate whose sender no longer resolves: the
  activity is in bob's inbox, and processing it again raises instead of returning
  silently.
\<close>

theorem duplicate_unresolved_sender_counterexample:
  "inbox_get_by_iri world_dup (person bob) (getattr like_ghost ''id'') = Some like_ghost
   \<and> process_from_inbox (Some world_dup) like_ghost (person bob)
       = (Inl BackendFailure, Some world_dup)"
  by (simp add: model_defs world_defs like_ghost_def world_dup_def process_from_inbox_def)

section \<open>Ownership of an Undo (C4)\<close>

text \<open>
  C4, as amended.  An inbound \<open>Undo\<close> that passes the block check and the duplicate
  check, and whose object's actor is not its own actor, fails with \<open>BadActivityError\<close>
  and leaves the backend as it was: nothing is stored in the inbox and no undo is
  dispatched.
\<close>

theorem undo_actor_mismatch:
  assumes "ACTIVITY_TYPE self = UNDO"
    and "get_actor (Some b) self = Inr actor"
    and "\<not> outbox_is_blocked b as_actor (getattr actor ''id'')"
    and "inbox_get_by_iri b as_actor (getattr self ''id'') = None"
    and "get_object (Some b) self = Inr (Instance obj)"
    and "get_actor (Some b) obj = Inr obj_actor"
    and "\<not> py_eq (getattr actor ''id'') (getattr obj_actor ''id'')"
  shows "process_from_inbox (Some b) self as_actor = (Inl BadActivityError, Some b)"
  using assms
  by (simp add: process_from_inbox_def u_pre_process_from_inbox_def same_actor_def
      as_activity_def)

theorem undo_actor_mismatch_witness:
  "ACTIVITY_TYPE undo_by_mallory = UNDO
   \<and> get_actor (Some world) undo_by_mallory = Inr mallory_actor
   \<and> \<not> outbox_is_blocked world (person bob) (getattr mallory_actor ''id'')
   \<and> inbox_get_by_iri world (person bob) (getattr undo_by_mallory ''id'') = None
   \<and> get_object (Some world) undo_by_mallory = Inr (Instance follow_received)
   \<and> get_actor (Some world) follow_received = Inr alice_actor
   \<and> \<not> py_eq (getattr mallory_actor ''id'') (getattr alice_actor ''id'')
   \<and> process_from_inbox (Some world) undo_by_mallory (person bob)
       = (Inl BadActivityError, Some world)"
proof -
  have 1: "ACTIVITY_TYPE undo_by_mallory = UNDO"
    by (simp add: undo_by_mallory_def)
  have 2: "get_actor (Some world) undo_by_mallory = Inr mallory_actor"
    by (simp add: model_defs world_defs undo_by_mallory_def mallory_actor_def)
  have 3: "\<not> outbox_is_blocked world (person bob) (getattr mallory_actor ''id'')"
    by (simp add: outbox_is_blocked_def world_defs)
  have 4: "inbox_get_by_iri world (person bob) (getattr undo_by_mallory ''id'') = None"
    by (simp add: inbox_get_by_iri_def world_defs)
  have 5: "get_object (Some world) undo_by_mallory = Inr (Instance follow_received)"
    by (simp add: model_defs world_defs undo_by_mallory_def follow_received_def)
  have 6: "get_actor (Some world) follow_received = Inr alice_actor"
    by (simp add: model_defs world_defs follow_received_def alice_actor_def)
  have 7: "\<not> py_eq (getattr mallory_actor ''id'') (getattr alice_actor ''id'')"
    by (simp add: getattr_def dget_default_def mallory_actor_def alice_actor_def)
  from undo_actor_mismatch [OF 1 2 3 4 5 6 7] 1 2 3 4 5 6 7 show ?thesis by simp
qed

text \<open>
  The unamended statement fails when the recipient has blocked the sender: mallory's
  \<open>Undo\<close> of alice's follow is dropped without an error.
\<close>

theorem undo_blocked_sender_counterexample:
  "get_actor (Some world_blocking) undo_by_mallory = Inr mallory_actor
   \<and> get_object (Some world_blocking) undo_by_mallory = Inr (Instance follow_received)
   \<and> get_actor (Some world_blocking) follow_received = Inr alice_actor
   \<and> \<not> py_eq (getattr mallory_actor ''id'') (getattr alice_actor ''id'')
   \<and> process_from_inbox (Some world_blocking) undo_by_mallory (person bob)
       = (Inr (), Some world_blocking)"
proof -
  have 1: "get_actor (Some world_blocking) undo_by_mallory = Inr mallory_actor"
    by (simp add: model_defs world_defs world_blocking_def undo_by_mallory_def mallory_actor_def)
  have 2: "get_object (Some world_blocking) undo_by_mallory = Inr (Instance follow_received)"
    by (simp add: model_defs world_defs world_blocking_def undo_by_mallory_def
        follow_received_def)
  have 3: "get_actor (Some world_blocking) follow_received = Inr alice_actor"
    by (simp add: model_defs world_defs world_blocking_def follow_received_def alice_actor_def)
  have 4: "\<not> py_eq (getattr mallory_actor ''id'') (getattr alice_actor ''id'')"
    by (simp add: getattr_def dget_default_def mallory_actor_def alice_actor_def)
  have 5: "process_from_inbox (Some world_blocking) undo_by_mallory (person bob)
             = (Inr (), Some world_blocking)"
  proof (rule process_from_inbox_drop [OF 1])
    have "outbox_is_blocked world_blocking (person bob) (getattr mallory_actor ''id'')"
      by (simp add: outbox_is_blocked_def world_blocking_def world_defs mallory_actor_def
          getattr_def dget_default_def)
    then show "outbox_is_blocked world_blocking (person bob) (getattr mallory_actor ''id'')
               \<or> inbox_get_by_iri world_blocking (person bob) (getattr undo_by_mallory ''id'')
                    \<noteq> None"
      by simp
  qed
  from 1 2 3 4 5 show ?thesis by simp
qed

section \<open>Delivery (C7)\<close>






























end
